theory Spec2Isabelle
  imports Main
begin

section \<open>Error levels and status codes\<close>

text \<open>
  Modelled from the spec: the error levels.  Their macros are defined in the header
  \<^verbatim>\<open>utils/elog.h\<close>, which is not among the source files; \<^verbatim>\<open>elog.cpp\<close> only compares
  them.  The levels are the ordered enumeration DEBUG5 .. DEBUG1, LOG, INFO, NOTICE,
  WARNING, ERROR, FATAL, PANIC of section 3 of the spec, with COMMERROR directly above LOG
  and the pseudo level VERBOSEMESSAGE below every other level, numbered as in the header.
\<close>

definition DEBUG5 :: int where "DEBUG5 = 10"
definition DEBUG4 :: int where "DEBUG4 = 11"
definition DEBUG3 :: int where "DEBUG3 = 12"
definition DEBUG2 :: int where "DEBUG2 = 13"
definition DEBUG1 :: int where "DEBUG1 = 14"
definition LOG :: int where "LOG = 15"
definition COMMERROR :: int where "COMMERROR = 16"
definition INFO :: int where "INFO = 17"
definition NOTICE :: int where "NOTICE = 18"
definition WARNING :: int where "WARNING = 19"
definition ERROR :: int where "ERROR = 20"
definition VERBOSEMESSAGE :: int where "VERBOSEMESSAGE = 9"
definition FATAL :: int where "FATAL = 21"
definition PANIC :: int where "PANIC = 22"

text \<open>
  Modelled from the spec: the status code is a five-character ANSI-SQL style code.  The
  packing macros of \<^verbatim>\<open>utils/elog.h\<close> and the code table \<^verbatim>\<open>utils/errcodes.h\<close> are not
  among the source files; \<^verbatim>\<open>send_message_to_frontend\<close> unpacks a code six bits at a time,
  lowest character first, which fixes the packing below.
\<close>

definition PGSIXBIT :: "char \<Rightarrow> int" where
  "PGSIXBIT ch = (int (of_char ch) - 48) mod 64"

definition MAKE_SQLSTATE :: "char \<Rightarrow> char \<Rightarrow> char \<Rightarrow> char \<Rightarrow> char \<Rightarrow> int" where
  "MAKE_SQLSTATE ch1 ch2 ch3 ch4 ch5 =
     PGSIXBIT ch1 + PGSIXBIT ch2 * 2 ^ 6 + PGSIXBIT ch3 * 2 ^ 12 +
     PGSIXBIT ch4 * 2 ^ 18 + PGSIXBIT ch5 * 2 ^ 24"

definition ERRCODE_SUCCESSFUL_COMPLETION :: int where
  "ERRCODE_SUCCESSFUL_COMPLETION = MAKE_SQLSTATE CHR ''0'' CHR ''0'' CHR ''0'' CHR ''0'' CHR ''0''"

definition ERRCODE_WARNING :: int where
  "ERRCODE_WARNING = MAKE_SQLSTATE CHR ''0'' CHR ''1'' CHR ''0'' CHR ''0'' CHR ''0''"

definition ERRCODE_WRONG_OBJECT_TYPE :: int where
  "ERRCODE_WRONG_OBJECT_TYPE = MAKE_SQLSTATE CHR ''4'' CHR ''2'' CHR ''8'' CHR ''0'' CHR ''9''"

definition ERRCODE_SYNTAX_ERROR :: int where
  "ERRCODE_SYNTAX_ERROR = MAKE_SQLSTATE CHR ''4'' CHR ''2'' CHR ''6'' CHR ''0'' CHR ''1''"

definition ERRCODE_INSUFFICIENT_PRIVILEGE :: int where
  "ERRCODE_INSUFFICIENT_PRIVILEGE = MAKE_SQLSTATE CHR ''4'' CHR ''2'' CHR ''5'' CHR ''0'' CHR ''1''"

text \<open>
  Modelled from the spec: the error stack has a fixed capacity ("e.g. 20"); the macro is
  defined in a header that is not among the source files.
\<close>

definition ERRORDATA_STACK_SIZE :: int where "ERRORDATA_STACK_SIZE = 20"

section \<open>\<^verbatim>\<open>is_log_level_output\<close>\<close>

text \<open>Is \<open>elevel\<close> logically at least \<open>log_min_level\<close>, with LOG sorted out of order?\<close>

definition is_log_level_output :: "int \<Rightarrow> int \<Rightarrow> bool" where
  "is_log_level_output lev log_min_level =
     (if lev = LOG \<or> lev = COMMERROR then
        (if log_min_level = LOG \<or> log_min_level \<le> ERROR then True else False)
      else if lev \<ge> log_min_level then True
      else False)"

section \<open>Error records and the per-thread state\<close>

text \<open>
  The record of one report, with the fields \<^verbatim>\<open>elog.cpp\<close> reads and writes (the structure
  itself is declared in \<^verbatim>\<open>utils/elog.h\<close>).  A text field that is a null pointer is
  \<open>None\<close>.
\<close>

record ErrorData =
  elevel :: int
  output_to_server :: bool
  output_to_client :: bool
  show_funcname :: bool
  hide_stmt :: bool
  handle_in_client :: bool
  verbose :: bool
  ignore_interrupt :: bool
  filename :: "string option"
  lineno :: int
  funcname :: "string option"
  domain :: "string option"
  sqlerrcode :: int
  message :: "string option"
  detail :: "string option"
  detail_log :: "string option"
  hint :: "string option"
  context_str :: "string option"
  cursorpos :: int
  internalpos :: int
  internalquery :: "string option"
  saved_errno :: int
  backtrace_log :: "string option"
  internalerrcode :: int
  mod_id :: int

text \<open>The frame after \<^verbatim>\<open>memset_s(edata, sizeof(ErrorData), 0, sizeof(ErrorData))\<close>.\<close>

definition zero_ErrorData :: ErrorData where
  "zero_ErrorData =
     \<lparr> elevel = 0, output_to_server = False, output_to_client = False,
       show_funcname = False, hide_stmt = False, handle_in_client = False,
       verbose = False, ignore_interrupt = False, filename = None, lineno = 0,
       funcname = None, domain = None, sqlerrcode = 0, message = None, detail = None,
       detail_log = None, hint = None, context_str = None, cursorpos = 0, internalpos = 0,
       internalquery = None, saved_errno = 0, backtrace_log = None, internalerrcode = 0,
       mod_id = 0 \<rparr>"

text \<open>Where the output of the session goes; \<^verbatim>\<open>elog.cpp\<close> tests for a remote client.\<close>

datatype CommandDest = DestNone | DestDebug | DestRemote

text \<open>What the sinks and the process received, in order.\<close>

datatype event =
    ServerLog ErrorData
  | Frontend ErrorData
  | ProducerReportError
  | ProducerReportNotice
  | AuditNoPrivileges "string option"
  | EndCopyOut
  | ErrorContextReset
  | Stderr

text \<open>
  The configuration and the process-role predicates \<^verbatim>\<open>elog.cpp\<close> reads but never writes.
  They are defined in other files, so they are parameters of the model: the settings
  (message minimums, \<^verbatim>\<open>Password_min_length\<close>), the role of the process or thread, the
  state of the connection, the module gate \<^verbatim>\<open>is_errmodule_enable\<close> and the retry rule
  \<^verbatim>\<open>IsStmtRetryAvaliable\<close> as functions of the level and of the module or status code.
  \<open>ProducerEdata\<close> is the record a stream producer saved for the top consumer, if the
  stream object exists and holds one; \<open>output_backtrace\<close> is the backtrace text, if it
  can be taken; \<open>ErrorContext_present\<close> says that the memory context for reports has
  been created; \<open>USE_ASSERT_CHECKING\<close> is the build option of that name.
\<close>

record knl_env =
  IsPostmasterEnvironment :: bool
  log_min_messages :: int
  client_min_messages :: int
  backtrace_min_messages :: int
  ExitOnAnyError :: bool
  AmPostmasterProcess :: bool
  AmCheckpointerProcess :: bool
  AmBackgroundWriterProcess :: bool
  AmWalReceiverWriterProcess :: bool
  AmDataReceiverWriterProcess :: bool
  AmWLMWorkerProcess :: bool
  AmWLMMonitorProcess :: bool
  AmWLMArbiterProcess :: bool
  AmCPMonitorProcess :: bool
  u_sess_present :: bool
  ClientAuthInProgress :: bool
  StreamThreadAmI :: bool
  StreamTopConsumerAmI :: bool
  producer_obj_present :: bool
  ProducerEdata :: "ErrorData option"
  IS_PGXC_COORDINATOR :: bool
  IsConnFromApp :: bool
  IsConnFromCoord :: bool
  USE_ASSERT_CHECKING :: bool
  ErrorContext_present :: bool
  LibcommThread :: bool
  MyProcPid_is_PostmasterPid :: bool
  MOD_MAX :: int
  Password_min_length :: int
  is_errmodule_enable :: "int \<Rightarrow> int \<Rightarrow> bool"
  IsStmtRetryAvaliable :: "int \<Rightarrow> int \<Rightarrow> bool"
  output_backtrace :: "string option"

text \<open>
  The mutable state of one thread: the error stack \<^verbatim>\<open>errordata[ERRORDATA_STACK_SIZE]\<close>
  with its depth (-1 when empty), the recursion depth, the chain of recovery points
  (a jump buffer is named by a number), the context callbacks (each contributes one
  line through \<^verbatim>\<open>errcontext\<close>), and the counters \<^verbatim>\<open>errfinish\<close> resets.
\<close>

record knl_thrd =
  errordata :: "nat \<Rightarrow> ErrorData"
  errordata_stack_depth :: int
  recursion_depth :: int
  PG_exception_stack :: "nat option"
  error_context_stack :: "string list"
  CritSectionCount :: int
  InterruptHoldoffCount :: int
  ImmediateInterruptOK :: bool
  proc_exit_inprogress :: bool
  whereToSendOutput :: CommandDest
  debug_query_string :: "string option"
  test_err_type :: int
  force_backtrace_messages :: bool
  errno :: int
  escape_string_warning :: bool
  trace :: "event list"

text \<open>
  How a call ends: it returns, or control leaves the caller for good (the process is
  aborted or exits, control jumps to a recovery point, a nested report is raised).  The
  last two cases are the end of the fuel of a bounded recursion and a write outside the
  string a buffer holds.
\<close>

datatype 'a outcome =
    Returns 'a knl_thrd
  | Aborted knl_thrd
  | ProcExit int knl_thrd
  | LongJump nat knl_thrd
  | Ereport int string knl_thrd
  | OutOfFuel
  | MemoryFault

section \<open>\<^verbatim>\<open>errstart\<close>\<close>

definition in_error_recursion_trouble :: "knl_thrd \<Rightarrow> bool" where
  "in_error_recursion_trouble s = (recursion_depth s > 2)"

text \<open>The escalation of the first block of \<^verbatim>\<open>errstart\<close>, up to the test hook.\<close>

definition errstart_promote :: "knl_env \<Rightarrow> knl_thrd \<Rightarrow> int \<Rightarrow> int" where
  "errstart_promote env s elevel0 =
     (let lev = (if CritSectionCount s > 0 then PANIC else elevel0) in
      if lev = ERROR then
        (let lev = (if PG_exception_stack s = None \<or> proc_exit_inprogress s
                       then FATAL else lev) in
         if ExitOnAnyError env \<and> \<not> AmPostmasterProcess env then
           (if AmCheckpointerProcess env \<or> AmBackgroundWriterProcess env \<or>
               AmWalReceiverWriterProcess env \<or> AmDataReceiverWriterProcess env
            then FATAL else PANIC)
         else lev)
      else lev)"

text \<open>
  \<^verbatim>\<open>for (i = 0; i <= errordata_stack_depth; i++) elevel = Max(elevel, errordata[i].elevel)\<close>
\<close>

definition stack_max :: "knl_thrd \<Rightarrow> int \<Rightarrow> int" where
  "stack_max s elevel0 =
     fold (\<lambda>i e. max e (elevel (errordata s i))) [0 ..< nat (errordata_stack_depth s + 1)] elevel0"

definition base_name :: "string \<Rightarrow> string" where
  "base_name f = (if CHR ''/'' \<in> set f then rev (takeWhile (\<lambda>c. c \<noteq> CHR ''/'') (rev f)) else f)"

definition default_sqlerrcode :: "int \<Rightarrow> int" where
  "default_sqlerrcode lev =
     (if lev \<ge> ERROR then ERRCODE_WRONG_OBJECT_TYPE
      else if lev = WARNING then ERRCODE_WARNING
      else ERRCODE_SUCCESSFUL_COMPLETION)"

text \<open>The decisions \<^verbatim>\<open>errstart\<close> takes before it touches any state.\<close>

record routing =
  r_elevel :: int
  r_to_server :: bool
  r_to_client :: bool
  r_verbose :: bool

definition errstart_decide :: "knl_env \<Rightarrow> knl_thrd \<Rightarrow> int \<Rightarrow> routing" where
  "errstart_decide env s elevel0 =
     (let lev = (if elevel0 \<ge> ERROR then stack_max s (errstart_promote env s elevel0)
                 else elevel0);
          to_server = (if IsPostmasterEnvironment env
                       then is_log_level_output lev (log_min_messages env)
                       else lev \<ge> log_min_messages env);
          to_client = (if whereToSendOutput s = DestRemote \<and> lev \<noteq> COMMERROR then
                         (if u_sess_present env \<and> ClientAuthInProgress env
                          then lev \<ge> ERROR
                          else (lev \<ge> client_min_messages env \<or> lev = INFO))
                       else False);
          to_client = (if StreamThreadAmI env \<and> lev = NOTICE then True else to_client);
          is_verbose = (VERBOSEMESSAGE = lev);
          to_client = (if is_verbose then True else to_client);
          lev = (if is_verbose \<and> IS_PGXC_COORDINATOR env then INFO else lev);
          to_client = (if (AmWLMWorkerProcess env \<or> AmWLMMonitorProcess env \<or>
                           AmWLMArbiterProcess env \<or> AmCPMonitorProcess env) \<and>
                          lev \<ge> ERROR
                       then False else to_client)
      in \<lparr> r_elevel = lev, r_to_server = to_server, r_to_client = to_client,
           r_verbose = is_verbose \<rparr>)"

text \<open>
  \<^verbatim>\<open>errstart\<close>, built without \<^verbatim>\<open>ENABLE_UT\<close> and \<^verbatim>\<open>ENABLE_QUNIT\<close>.  The nested
  \<^verbatim>\<open>ereport(ERROR, ...)\<close> of the test hook does not come back: the call ends as
  \<open>Ereport\<close> in the state the hook leaves.
\<close>

definition errstart ::
  "knl_env \<Rightarrow> int \<Rightarrow> string option \<Rightarrow> int \<Rightarrow> string option \<Rightarrow> string option \<Rightarrow> knl_thrd
     \<Rightarrow> bool outcome" where
  "errstart env elevel0 fname line func domain_arg s =
    (if elevel0 \<ge> ERROR \<and> (if CritSectionCount s > 0 then PANIC else elevel0) = ERROR \<and>
        test_err_type s \<ge> 3
     then Ereport ERROR ''ERR CONTAINS ERR''
            (s\<lparr>test_err_type := 0, force_backtrace_messages := False\<rparr>)
     else
      let r = errstart_decide env s elevel0 in
      if r_elevel r < ERROR \<and> \<not> r_to_server r \<and> \<not> r_to_client r then Returns False s
      else if \<not> ErrorContext_present env then
        (let s = s\<lparr>trace := trace s @ [Stderr]\<rparr> in
         if LibcommThread env then Aborted s
         else if \<not> IsPostmasterEnvironment env \<or> MyProcPid_is_PostmasterPid env
         then ProcExit 2 (s\<lparr>trace := trace s @ [Stderr]\<rparr>)
         else ProcExit 2 (s\<lparr>force_backtrace_messages := False\<rparr>))
      else
        let r0 = recursion_depth s;
            s = s\<lparr>recursion_depth := r0 + 1\<rparr>;
            s = (if r0 > 0 \<and> r_elevel r \<ge> ERROR then
                   (let s = s\<lparr>trace := trace s @ [ErrorContextReset]\<rparr> in
                    if in_error_recursion_trouble s
                    then s\<lparr>error_context_stack := [], debug_query_string := None\<rparr>
                    else s)
                 else s);
            s = s\<lparr>errordata_stack_depth := errordata_stack_depth s + 1\<rparr>
        in
        if errordata_stack_depth s \<ge> ERRORDATA_STACK_SIZE then
          Aborted (s\<lparr>force_backtrace_messages := False, errordata_stack_depth := - 1,
                     ImmediateInterruptOK := False\<rparr>)
        else
          let edata = zero_ErrorData
                \<lparr> elevel := r_elevel r,
                  verbose := r_verbose r,
                  output_to_server := r_to_server r,
                  output_to_client := r_to_client r,
                  lineno := line,
                  filename := map_option base_name fname,
                  funcname := func,
                  domain := (case domain_arg of Some d \<Rightarrow> Some d | None \<Rightarrow> Some ''postgres''),
                  sqlerrcode := default_sqlerrcode (r_elevel r),
                  saved_errno := errno s,
                  mod_id := MOD_MAX env,
                  backtrace_log := None \<rparr>;
              s = s\<lparr>errordata := (errordata s)(nat (errordata_stack_depth s) := edata)\<rparr>
          in Returns True (s\<lparr>recursion_depth := recursion_depth s - 1\<rparr>))"

section \<open>Emission: \<^verbatim>\<open>EmitErrorReport\<close> and the two sinks\<close>

text \<open>The frame \<^verbatim>\<open>&errordata[errordata_stack_depth]\<close> and an update of it in place.\<close>

definition top_frame :: "knl_thrd \<Rightarrow> ErrorData" where
  "top_frame s = errordata s (nat (errordata_stack_depth s))"

definition top_update :: "(ErrorData \<Rightarrow> ErrorData) \<Rightarrow> knl_thrd \<Rightarrow> knl_thrd" where
  "top_update f s =
     s\<lparr>errordata := (errordata s)(nat (errordata_stack_depth s) := f (top_frame s))\<rparr>"

text \<open>
  The failure branch of the macro \<^verbatim>\<open>CHECK_STACK_DEPTH\<close>: the depth is reset and an
  ERROR is reported, which does not come back.
\<close>

definition stack_depth_error :: "knl_thrd \<Rightarrow> 'a outcome" where
  "stack_depth_error s =
     Ereport ERROR ''errstart was not called'' (s\<lparr>errordata_stack_depth := - 1\<rparr>)"

text \<open>
  \<^verbatim>\<open>send_message_to_server_log\<close> formats the record for the enabled log destinations;
  here the sink receives the record.
\<close>

definition send_message_to_server_log :: "knl_env \<Rightarrow> knl_thrd \<Rightarrow> knl_thrd" where
  "send_message_to_server_log env s = s\<lparr>trace := trace s @ [ServerLog (top_frame s)]\<rparr>"

text \<open>
  \<^verbatim>\<open>send_message_to_frontend\<close>: the two early returns, then the message is built from
  the record and handed to the channel encoder.  No test on the module of the record
  occurs in the function.
\<close>

definition send_message_to_frontend :: "knl_env \<Rightarrow> knl_thrd \<Rightarrow> knl_thrd" where
  "send_message_to_frontend env s =
     (let edata = top_frame s in
      if \<not> USE_ASSERT_CHECKING env \<and> IS_PGXC_COORDINATOR env \<and> IsConnFromApp env \<and>
         elevel edata \<le> LOG
      then s
      else if (IsConnFromCoord env \<or> StreamThreadAmI env) \<and> elevel edata < ERROR \<and>
              \<not> handle_in_client edata
      then s
      else s\<lparr>trace := trace s @ [Frontend edata]\<rparr>)"

definition EmitErrorReport :: "knl_env \<Rightarrow> knl_thrd \<Rightarrow> unit outcome" where
  "EmitErrorReport env s =
     (let s = s\<lparr>recursion_depth := recursion_depth s + 1\<rparr> in
      if errordata_stack_depth s < 0 then stack_depth_error s
      else
        let s = (if output_to_server (top_frame s) \<and>
                    is_errmodule_enable env (elevel (top_frame s)) (mod_id (top_frame s))
                 then send_message_to_server_log env s else s);
            s = (if output_to_client (top_frame s) then
                   (let need_skip_by_retry =
                          IsStmtRetryAvaliable env (elevel (top_frame s)) (sqlerrcode (top_frame s));
                        can_skip = (elevel (top_frame s) < FATAL)
                    in if can_skip \<and> need_skip_by_retry then s
                       else send_message_to_frontend env s)
                 else s)
        in Returns () (s\<lparr>recursion_depth := recursion_depth s - 1\<rparr>))"

section \<open>\<^verbatim>\<open>errfinish\<close> and \<^verbatim>\<open>pg_re_throw\<close>\<close>

text \<open>\<^verbatim>\<open>errcontext\<close> appends a line to the context of the top_frame frame.\<close>

definition errcontext :: "string \<Rightarrow> knl_thrd \<Rightarrow> knl_thrd" where
  "errcontext txt s =
     top_update (\<lambda>e. e\<lparr>context_str :=
        (case context_str e of None \<Rightarrow> Some txt | Some c \<Rightarrow> Some (c @ ''\<newline>'' @ txt))\<rparr>) s"

text \<open>\<^verbatim>\<open>UpdateErrorData\<close>: the routing flags and the module are not copied.\<close>

definition UpdateErrorData :: "ErrorData \<Rightarrow> ErrorData \<Rightarrow> ErrorData" where
  "UpdateErrorData edata newData =
     edata\<lparr> elevel := elevel newData, filename := filename newData,
            lineno := lineno newData, funcname := funcname newData,
            sqlerrcode := sqlerrcode newData, message := message newData,
            detail := detail newData, detail_log := detail_log newData,
            hint := hint newData, context_str := context_str newData,
            cursorpos := cursorpos newData, internalpos := internalpos newData,
            internalquery := internalquery newData, saved_errno := saved_errno newData,
            backtrace_log := backtrace_log newData,
            internalerrcode := internalerrcode newData \<rparr>"

text \<open>
  The backtrace step of \<^verbatim>\<open>errfinish\<close>: the field is cleared, then set when the level
  of the record reaches the configured threshold and the backtrace could be taken.
\<close>

definition capture_backtrace :: "knl_env \<Rightarrow> ErrorData \<Rightarrow> ErrorData" where
  "capture_backtrace env e =
     e\<lparr>backtrace_log :=
         (if elevel e \<ge> backtrace_min_messages env then output_backtrace env else None)\<rparr>"

text \<open>
  The first half of \<^verbatim>\<open>errfinish\<close>, up to the test on ERROR: the level the function
  goes on with, and the state.
\<close>

definition errfinish_begin :: "knl_env \<Rightarrow> knl_thrd \<Rightarrow> int \<times> knl_thrd" where
  "errfinish_begin env s =
     (let lev = elevel (top_frame s);
          (s, lev) =
             (if StreamTopConsumerAmI env \<and> lev \<ge> ERROR then
                (case ProducerEdata env of
                   Some p \<Rightarrow> if elevel p \<ge> lev
                             then (top_update (\<lambda>e. UpdateErrorData e p) s, elevel p)
                             else (s, lev)
                 | None \<Rightarrow> (s, lev))
              else (s, lev));
          s = fold errcontext (error_context_stack s) s;
          s = (if sqlerrcode (top_frame s) = ERRCODE_INSUFFICIENT_PRIVILEGE
               then s\<lparr>trace := trace s @ [AuditNoPrivileges (message (top_frame s))]\<rparr> else s);
          s = top_update (capture_backtrace env) s
      in (lev, s))"

text \<open>The second half of \<^verbatim>\<open>errfinish\<close>, for a level other than ERROR.\<close>

definition errfinish_emit :: "knl_env \<Rightarrow> int \<Rightarrow> knl_thrd \<Rightarrow> unit outcome" where
  "errfinish_emit env lev s =
     (let s = (if lev \<ge> FATAL \<and> whereToSendOutput s = DestRemote
               then s\<lparr>trace := trace s @ [EndCopyOut]\<rparr> else s);
          isVerbose = (elevel (top_frame s) = VERBOSEMESSAGE);
          s = (if isVerbose
               then top_update (\<lambda>e. e\<lparr>elevel := INFO, handle_in_client := True\<rparr>) s else s);
          emitted =
            (if StreamThreadAmI env \<and> producer_obj_present env \<and> lev = FATAL then
               Returns () (s\<lparr>trace := trace s @ [ProducerReportError]\<rparr>)
             else if StreamThreadAmI env \<and> producer_obj_present env \<and> lev < ERROR then
               (let s = (if output_to_server (top_frame s) \<and>
                            is_errmodule_enable env (elevel (top_frame s)) (mod_id (top_frame s))
                         then send_message_to_server_log env s else s);
                    s = (if output_to_client (top_frame s)
                         then s\<lparr>trace := trace s @ [ProducerReportNotice]\<rparr> else s)
                in Returns () s)
             else EmitErrorReport env s)
      in case emitted of
           Returns u s \<Rightarrow>
             (let s = (if isVerbose
                       then top_update (\<lambda>e. e\<lparr>handle_in_client := False\<rparr>) s else s);
                  s = top_update (\<lambda>e. e\<lparr>message := None, detail := None, detail_log := None,
                                       hint := None, context_str := None,
                                       internalquery := None, backtrace_log := None\<rparr>) s;
                  s = s\<lparr>errordata_stack_depth := errordata_stack_depth s - 1\<rparr>;
                  s = s\<lparr>recursion_depth := recursion_depth s - 1\<rparr>
              in if lev = FATAL then
                   (let s = s\<lparr>ImmediateInterruptOK := False\<rparr>;
                        s = (if PG_exception_stack s = None \<and> whereToSendOutput s = DestRemote
                             then s\<lparr>whereToSendOutput := DestNone\<rparr> else s)
                    in ProcExit 1 s)
                 else if lev \<ge> PANIC then Aborted (s\<lparr>ImmediateInterruptOK := False\<rparr>)
                 else Returns () s)
         | other \<Rightarrow> other)"

text \<open>
  The promotion \<^verbatim>\<open>pg_re_throw\<close> performs on the top_frame frame when no recovery point is
  left, before it calls \<^verbatim>\<open>errfinish(0)\<close>.
\<close>

definition pg_re_throw_promote :: "knl_env \<Rightarrow> knl_thrd \<Rightarrow> knl_thrd" where
  "pg_re_throw_promote env s =
     (let s = top_update (\<lambda>e. e\<lparr>elevel := FATAL\<rparr>) s;
          s = top_update (\<lambda>e. e\<lparr>output_to_server :=
                 (if IsPostmasterEnvironment env
                  then is_log_level_output FATAL (log_min_messages env)
                  else FATAL \<ge> log_min_messages env)\<rparr>) s;
          s = (if whereToSendOutput s = DestRemote
               then top_update (\<lambda>e. e\<lparr>output_to_client := True\<rparr>) s else s)
      in s\<lparr>error_context_stack := []\<rparr>)"

text \<open>
  \<^verbatim>\<open>errfinish\<close> hands an ERROR to \<^verbatim>\<open>PG_RE_THROW()\<close>, and \<^verbatim>\<open>pg_re_throw\<close> calls
  \<^verbatim>\<open>errfinish(0)\<close> when it finds no recovery point.  The nesting is bounded by a fuel
  argument; three units are always enough (lemma \<open>errfinish_fuel\<close>).
\<close>

fun errfinish :: "nat \<Rightarrow> knl_env \<Rightarrow> knl_thrd \<Rightarrow> unit outcome"
  and pg_re_throw :: "nat \<Rightarrow> knl_env \<Rightarrow> knl_thrd \<Rightarrow> unit outcome" where
  "errfinish 0 env s = OutOfFuel"
| "errfinish (Suc n) env s =
     (let s = s\<lparr>recursion_depth := recursion_depth s + 1, force_backtrace_messages := False\<rparr>
      in if errordata_stack_depth s < 0 then stack_depth_error s
         else
           let (lev, s) = errfinish_begin env s in
           if lev = ERROR then
             pg_re_throw n env
               (s\<lparr>ImmediateInterruptOK := False, InterruptHoldoffCount := 0,
                  CritSectionCount := 0, recursion_depth := recursion_depth s - 1\<rparr>)
           else errfinish_emit env lev s)"
| "pg_re_throw 0 env s = OutOfFuel"
| "pg_re_throw (Suc n) env s =
     (case PG_exception_stack s of
        Some j \<Rightarrow> LongJump j s
      | None \<Rightarrow>
          (case errfinish n env (pg_re_throw_promote env s) of
             Returns u s' \<Rightarrow> Aborted s'
           | other \<Rightarrow> other))"

section \<open>A backend in its normal state\<close>

text \<open>
  A backend thread of a running server with a remote client and the default message
  levels, outside any critical section, with one recovery point registered and an empty
  error stack.  The concrete configurations below are variations of it.
\<close>

definition env0 :: knl_env where
  "env0 =
     \<lparr> IsPostmasterEnvironment = True, log_min_messages = WARNING,
       client_min_messages = NOTICE, backtrace_min_messages = PANIC,
       ExitOnAnyError = False, AmPostmasterProcess = False, AmCheckpointerProcess = False,
       AmBackgroundWriterProcess = False, AmWalReceiverWriterProcess = False,
       AmDataReceiverWriterProcess = False, AmWLMWorkerProcess = False,
       AmWLMMonitorProcess = False, AmWLMArbiterProcess = False, AmCPMonitorProcess = False,
       u_sess_present = True, ClientAuthInProgress = False, StreamThreadAmI = False,
       StreamTopConsumerAmI = False, producer_obj_present = False, ProducerEdata = None,
       IS_PGXC_COORDINATOR = False, IsConnFromApp = True, IsConnFromCoord = False,
       USE_ASSERT_CHECKING = False, ErrorContext_present = True, LibcommThread = False,
       MyProcPid_is_PostmasterPid = False, MOD_MAX = 0, Password_min_length = 8,
       is_errmodule_enable = (\<lambda>lev m. True), IsStmtRetryAvaliable = (\<lambda>lev code. False),
       output_backtrace = None \<rparr>"

definition thrd0 :: knl_thrd where
  "thrd0 =
     \<lparr> errordata = (\<lambda>i. zero_ErrorData), errordata_stack_depth = - 1, recursion_depth = 0,
       PG_exception_stack = Some 0, error_context_stack = [], CritSectionCount = 0,
       InterruptHoldoffCount = 0, ImmediateInterruptOK = False, proc_exit_inprogress = False,
       whereToSendOutput = DestRemote, debug_query_string = None, test_err_type = 0,
       force_backtrace_messages = False, errno = 0, escape_string_warning = True,
       trace = [] \<rparr>"

text \<open>
  The five characters of a status code, as \<^verbatim>\<open>send_message_to_frontend\<close> unpacks them:
  \<^verbatim>\<open>for (i = 0; i < 5; i++) { tbuf[i] = PGUNSIXBIT(ssval); ssval >>= 6; }\<close>
\<close>

definition PGUNSIXBIT :: "int \<Rightarrow> char" where
  "PGUNSIXBIT v = char_of (v mod 64 + 48)"

fun unpack_sqlstate :: "nat \<Rightarrow> int \<Rightarrow> string" where
  "unpack_sqlstate 0 ssval = []"
| "unpack_sqlstate (Suc n) ssval = PGUNSIXBIT ssval # unpack_sqlstate n (ssval div 64)"

text \<open>The same backend with one report still pending on the error stack.\<close>

definition pending :: "int \<Rightarrow> knl_thrd" where
  "pending lev =
     thrd0\<lparr>errordata := (\<lambda>i. zero_ErrorData\<lparr>elevel := lev\<rparr>), errordata_stack_depth := 0\<rparr>"

text \<open>The backend with every module switched off for logging.\<close>

definition env_module_off :: knl_env where
  "env_module_off = env0\<lparr>is_errmodule_enable := (\<lambda>lev m. False)\<rparr>"

text \<open>
  The backend with no recovery point registered: at top level inside a critical section,
  and after a handler has caught an ERROR that is still on the stack.
\<close>

definition critical_no_handler :: knl_thrd where
  "critical_no_handler = thrd0\<lparr>PG_exception_stack := None, CritSectionCount := 1\<rparr>"

definition caught_no_handler :: knl_thrd where
  "caught_no_handler =
     thrd0\<lparr>errordata := (\<lambda>i. zero_ErrorData\<lparr>elevel := ERROR, output_to_server := True\<rparr>),
           errordata_stack_depth := 0, PG_exception_stack := None\<rparr>"

section \<open>The redaction scanner \<^verbatim>\<open>mask_Password_internal\<close>\<close>

subsection \<open>The tokenizer, as the scanner sees it\<close>

text \<open>
  Modelled from the spec: the kinds of token the tokenizer yields.  The token codes are
  generated from the grammar, which is not among the source files; the scanner only
  compares them, so only their identity matters.  \<open>NoTok\<close> is the code 0, and
  \<open>CharTok c\<close> the code of the single character \<open>c\<close> (40, 41, 44 and 59 in the source
  are the parentheses, the comma and the semicolon).
\<close>

datatype tok =
    NoTok | CREATE | ALTER | SET | ROLE | SESSION | USER | LOCAL | GROUP_P | DATABASE
  | PASSWORD | BY | REPLACE | FUNCTION | PROCEDURE | DO | AS | IS | IMMEDIATE | EXECUTE
  | IDENTIFIED | FOREIGN | TABLE | SERVER | OPTIONS | DATA_P | SOURCE_P | IDENT | SCONST
  | CharTok char | OtherTok nat

text \<open>
  One result of \<^verbatim>\<open>core_yylex\<close>: the token code, the value the call stores in
  \<^verbatim>\<open>yylval.str\<close> (none for a token without a value: the previous value stays), the
  offset \<^verbatim>\<open>yylloc\<close> of the token in the text, and \<^verbatim>\<open>yyextra.literallen\<close>.
\<close>

record yytoken =
  tkind :: tok
  tval :: "string option"
  tloc :: int
  tliterallen :: int

text \<open>
  How the token sequence of a text ends: with the code 0, or with an ERROR raised by the
  tokenizer.  The tokenizer reports through \<^verbatim>\<open>ereport\<close>; the frames listed are the
  reports of its own still under construction when the ERROR is raised (none in the
  plain case; one when building the message of a report fails in turn, the recursion
  the head of \<^verbatim>\<open>elog.cpp\<close> describes).
\<close>

datatype lex_end = EndOfInput | ParseError "ErrorData list"

text \<open>
  The tokenizer is an external collaborator.  It is a parameter of the model: the
  sequence of results \<^verbatim>\<open>core_yylex\<close> delivers while a given text is scanned.
\<close>

type_synonym lexer = "string \<Rightarrow> yytoken list \<times> lex_end"

subsection \<open>Characters and buffers\<close>

definition isspace :: "char \<Rightarrow> bool" where
  "isspace c = (c \<in> set [CHR '' '', CHR 0x09, CHR 0x0A, CHR 0x0B, CHR 0x0C, CHR 0x0D])"

definition pg_tolower :: "char \<Rightarrow> char" where
  "pg_tolower c =
     (if (65::nat) \<le> of_char c \<and> of_char c \<le> (90::nat)
      then char_of (of_char c + (32::nat)) else c)"

definition pg_strcasecmp_eq :: "string \<Rightarrow> string \<Rightarrow> bool" where
  "pg_strcasecmp_eq a b = (map pg_tolower a = map pg_tolower b)"

text \<open>\<^verbatim>\<open>str[i]\<close> for a C string: the terminator stands at the end.\<close>

definition char_at :: "string \<Rightarrow> int \<Rightarrow> char" where
  "char_at str i = (if 0 \<le> i \<and> i < int (length str) then str ! nat i else CHR 0x00)"

text \<open>
  The bounds-checked primitives \<^verbatim>\<open>memset_s\<close>, \<^verbatim>\<open>memmove_s\<close> and \<^verbatim>\<open>memcpy_s\<close> come
  from a library outside the repository.  In the model \<^verbatim>\<open>memset_s\<close> with a count
  within the destination size writes the count, a count above the destination size
  fills the destination and fails, a negative size (an unsigned size above the maximum
  of the library) fails, and the two copying primitives fail for a destination size that
  is not positive; \<^verbatim>\<open>securec_check\<close> turns a failure into an ERROR.  A write that
  would pass the end of the string held in the buffer, or start before the buffer, is a
  memory fault: what the buffer holds afterwards is not determined by the text.
\<close>

datatype mem_result = MemOk string | MemErr string | MemFault

definition fill_stars :: "string \<Rightarrow> nat \<Rightarrow> nat \<Rightarrow> string" where
  "fill_stars m p n = take p m @ replicate n CHR ''*'' @ drop (p + n) m"

definition memset_stars :: "string \<Rightarrow> int \<Rightarrow> int \<Rightarrow> int \<Rightarrow> mem_result" where
  "memset_stars m pos destMax cnt =
     (if destMax < 0 then MemErr m
      else if 0 \<le> cnt \<and> cnt \<le> destMax then
        (if pos < 0 \<or> pos + cnt > int (length m) then MemFault
         else MemOk (fill_stars m (nat pos) (nat cnt)))
      else if destMax = 0 then MemErr m
      else if pos < 0 \<or> pos + destMax > int (length m) then MemFault
      else MemErr (fill_stars m (nat pos) (nat destMax)))"

text \<open>\<^verbatim>\<open>erase_single_quotes\<close>, on the characters from the current one on.\<close>

fun erase_quotes :: "nat \<Rightarrow> bool \<Rightarrow> string \<Rightarrow> string" where
  "erase_quotes cnt inDoubleQuotes [] = []"
| "erase_quotes cnt inDoubleQuotes (c # cs) =
     (if c = CHR 0x27 \<and> \<not> inDoubleQuotes then CHR '' '' # erase_quotes (cnt + 1) inDoubleQuotes cs
      else if c = CHR '';'' \<and> cnt mod 2 = 0 then c # cs
      else if c = CHR 0x22 then c # erase_quotes cnt (\<not> inDoubleQuotes) cs
      else if c = CHR ''|'' \<and> cs \<noteq> [] \<and> hd cs = CHR ''|''
           then CHR '' '' # erase_quotes cnt inDoubleQuotes (CHR '' '' # tl cs)
      else c # erase_quotes cnt inDoubleQuotes cs)"

definition erase_single_quotes :: "string \<Rightarrow> string" where
  "erase_single_quotes query_string = erase_quotes 0 False query_string"

subsection \<open>The state of the scanning loop\<close>

record scan =
  curr_token :: tok
  prev_token0 :: tok
  prev_token1 :: tok
  prev_token2 :: tok
  prev_token3 :: tok
  is_password :: bool
  mask_string :: "string option"
  position :: "int list"
  length_arr :: "int list"
  idx :: nat
  is_create_func :: bool
  is_child_stmt :: bool
  truncateLen :: int
  is_crypt_func :: bool
  count_crypt :: int
  position_crypt :: int
  cur_stmt_type :: int
  yylval_str :: string

definition scan_init :: scan where
  "scan_init =
     \<lparr> curr_token = CharTok CHR '';'', prev_token0 = NoTok, prev_token1 = NoTok,
       prev_token2 = NoTok, prev_token3 = NoTok, is_password = False, mask_string = None,
       position = replicate 16 0, length_arr = replicate 16 0, idx = 0,
       is_create_func = False, is_child_stmt = False, truncateLen = 0,
       is_crypt_func = False, count_crypt = 0, position_crypt = 0, cur_stmt_type = 0,
       yylval_str = [] \<rparr>"

text \<open>
  One pass of the loop body ends in the next loop state, in an ERROR raised from the
  given state, in a memory fault, or with the end of the process inside a nested scan.
\<close>

datatype step_result =
    Next scan knl_thrd
  | Throw scan knl_thrd
  | Fault
  | Ended "string option outcome"

text \<open>\<^verbatim>\<open>if (mask_string == NULL) mask_string = MemoryContextStrdup(..., query_string)\<close>\<close>

definition ensure_mask :: "string \<Rightarrow> scan \<Rightarrow> scan" where
  "ensure_mask query_string st =
     (case mask_string st of None \<Rightarrow> st\<lparr>mask_string := Some query_string\<rparr> | Some m \<Rightarrow> st)"

text \<open>
  The backward search for the start of an unquoted password:
  \<^verbatim>\<open>while (position[i] > 0 && !isspace(wordHead) && wordHead != '\'' && wordHead != '\"')\<close>
\<close>

fun word_start :: "string \<Rightarrow> nat \<Rightarrow> nat" where
  "word_start query_string 0 = 0"
| "word_start query_string (Suc p) =
     (let wordHead = char_at query_string (int p) in
      if \<not> isspace wordHead \<and> wordHead \<noteq> CHR 0x27 \<and> wordHead \<noteq> CHR 0x22
      then word_start query_string p else Suc p)"

text \<open>
  The body of the masking loop for the buffered span \<open>i\<close>: the span is replaced by
  \<open>maskLen\<close> mask characters, at its position less the characters cut so far.
\<close>

definition mask_span :: "string \<Rightarrow> int \<Rightarrow> nat \<Rightarrow> scan \<Rightarrow> scan + scan option" where
  "mask_span query_string maskLen i st =
     (let pos = position st ! i;
          wordHead = (if pos > 0 then char_at query_string (pos - 1) else CHR 0x00);
          st = (if is_password st \<and> wordHead \<noteq> CHR 0x00 \<and> wordHead \<noteq> CHR 0x27 \<and>
                   wordHead \<noteq> CHR 0x22 then
                  (let pos = int (word_start query_string (nat pos));
                       len = int (length query_string) - pos;
                       len = (if char_at query_string (pos + len - 1) = CHR '';''
                              then len - 1 else len)
                   in st\<lparr>position := (position st)[i := pos],
                         length_arr := (length_arr st)[i := len]\<rparr>)
                else st);
          pos = position st ! i;
          len = length_arr st ! i;
          m = the (mask_string st);
          p = pos - truncateLen st;
          copySize = int (length m) - p - len + 1
      in if copySize \<le> 0 then Inr (Some st)
         else if p < 0 \<or> len < 0 \<or> maskLen < 0 then Inr None
         else
           let m = take (nat p) m @ replicate (nat maskLen) CHR ''*'' @ drop (nat (p + len)) m;
               st = st\<lparr>mask_string := Some m,
                       truncateLen := (if len > maskLen then truncateLen st + (len - maskLen)
                                       else truncateLen st)\<rparr>
           in Inl st)"

text \<open>
  \<^verbatim>\<open>for (i = 0; i < idx; ++i)\<close> over the spans; \<open>Inl\<close> is the state after the loop,
  \<open>Inr (Some st)\<close> an ERROR raised in state \<open>st\<close>, \<open>Inr None\<close> a memory fault.
\<close>

fun mask_spans :: "string \<Rightarrow> int \<Rightarrow> nat list \<Rightarrow> scan \<Rightarrow> scan + scan option" where
  "mask_spans query_string maskLen [] st = Inl st"
| "mask_spans query_string maskLen (i # is) st =
     (case mask_span query_string maskLen i st of
        Inl st' \<Rightarrow> mask_spans query_string maskLen is st'
      | Inr e \<Rightarrow> Inr e)"

text \<open>The loop of the function-call branch: each buffered span is overwritten in place.\<close>

fun star_spans :: "nat list \<Rightarrow> scan \<Rightarrow> scan + scan option" where
  "star_spans [] st = Inl st"
| "star_spans (i # is) st =
     (case memset_stars (the (mask_string st)) (position st ! i) (length_arr st ! i)
             (length_arr st ! i) of
        MemOk m \<Rightarrow> star_spans is (st\<lparr>mask_string := Some m\<rparr>)
      | MemErr m \<Rightarrow> Inr (Some (st\<lparr>mask_string := Some m\<rparr>))
      | MemFault \<Rightarrow> Inr None)"

text \<open>
  The block that buffers a string or identifier token inside a sensitive statement and
  masks the buffered spans once a password keyword has been seen or 16 spans are held.
\<close>

definition collect_token :: "knl_env \<Rightarrow> string \<Rightarrow> yytoken \<Rightarrow> scan \<Rightarrow> scan + scan option" where
  "collect_token env query_string t st =
     (if cur_stmt_type st > 0 \<and> cur_stmt_type st \<noteq> 12 \<and>
         (curr_token st = SCONST \<or> curr_token st = IDENT) then
        (if tloc t \<ge> int (length query_string) then Inr (Some st)
         else
           let ch = char_at query_string (tloc t);
               pos = (if ch = CHR 0x27 \<or> ch = CHR 0x22 then tloc t + 1 else tloc t);
               st = st\<lparr>position := (position st)[idx st := pos],
                       length_arr := (length_arr st)[idx st := int (length (yylval_str st))],
                       idx := idx st + 1\<rparr>
           in if idx st = 16 \<or> is_password st then
                (case mask_spans query_string (Password_min_length env) [0 ..< idx st]
                        (ensure_mask query_string st) of
                   Inl st \<Rightarrow>
                     Inl (st\<lparr>yylval_str := [], idx := 0, is_password := False,
                             cur_stmt_type := (if cur_stmt_type st = 10 \<or> cur_stmt_type st = 11
                                               then 0 else cur_stmt_type st)\<rparr>)
                 | Inr e \<Rightarrow> Inr e)
              else Inl st)
      else Inl st)"

text \<open>The \<^verbatim>\<open>switch (curr_token)\<close>.\<close>

definition switch_token :: "string \<Rightarrow> yytoken \<Rightarrow> scan \<Rightarrow> scan + scan option" where
  "switch_token query_string t st =
     (let k = curr_token st; p0 = prev_token0 st in
      if k = CREATE \<or> k = ALTER \<or> k = SET then Inl st
      else if k = ROLE \<or> k = SESSION then
        (if cur_stmt_type st > 0 then Inl st
         else if p0 = CREATE then Inl (st\<lparr>cur_stmt_type := 1\<rparr>)
         else if p0 = ALTER then Inl (st\<lparr>cur_stmt_type := 3\<rparr>)
         else if p0 = SET then Inl (st\<lparr>cur_stmt_type := 6\<rparr>)
         else if prev_token1 st = SET \<and> (p0 = LOCAL \<or> p0 = SESSION)
         then Inl (st\<lparr>cur_stmt_type := 6, prev_token1 := NoTok\<rparr>)
         else Inl st)
      else if k = USER then
        (if cur_stmt_type st > 0 then Inl st
         else if p0 = CREATE then Inl (st\<lparr>cur_stmt_type := 2\<rparr>)
         else if p0 = ALTER then Inl (st\<lparr>cur_stmt_type := 4\<rparr>)
         else Inl st)
      else if k = LOCAL then
        (if p0 = SET then Inl (st\<lparr>prev_token1 := SET\<rparr>) else Inl st)
      else if k = GROUP_P then
        (if cur_stmt_type st > 0 then Inl st
         else if p0 = CREATE then Inl (st\<lparr>cur_stmt_type := 5\<rparr>)
         else Inl st)
      else if k = DATABASE then
        (if p0 = CREATE then Inl (st\<lparr>prev_token1 := CREATE\<rparr>) else Inl st)
      else if k = PASSWORD then
        (let st = (if prev_token1 st = SERVER \<and> prev_token2 st = OPTIONS
                   then st\<lparr>cur_stmt_type := 10, curr_token := IDENT\<rparr>
                   else if prev_token1 st = DATA_P \<and> prev_token2 st = SOURCE_P \<and>
                           prev_token3 st = OPTIONS
                   then st\<lparr>cur_stmt_type := 11, curr_token := IDENT\<rparr>
                   else st)
         in Inl (st\<lparr>is_password := True, idx := 0\<rparr>))
      else if k = BY then
        (let b = (cur_stmt_type st > 0 \<and> p0 = IDENTIFIED);
             st = st\<lparr>is_password := b\<rparr>
         in Inl (if b then st\<lparr>idx := 0\<rparr> else st))
      else if k = REPLACE then
        (let b = (cur_stmt_type st = 3 \<or> cur_stmt_type st = 4);
             st = st\<lparr>is_password := b\<rparr>
         in Inl (if b then st\<lparr>idx := 0\<rparr> else st))
      else if k = FUNCTION \<or> k = PROCEDURE then
        (if cur_stmt_type st > 0 then Inl st
         else if p0 = CREATE \<or> p0 = REPLACE then Inl (st\<lparr>is_create_func := True\<rparr>)
         else Inl st)
      else if k = DO then Inl (st\<lparr>is_create_func := False, is_child_stmt := True\<rparr>)
      else if k = AS \<or> k = IS then
        (if is_create_func st then Inl (st\<lparr>is_create_func := False, is_child_stmt := True\<rparr>)
         else Inl st)
      else if k = IMMEDIATE then
        (if cur_stmt_type st > 0 then Inl st
         else if p0 = EXECUTE then Inl (st\<lparr>is_child_stmt := True\<rparr>)
         else Inl st)
      else if k = CharTok CHR ''('' then
        (let st = (if is_crypt_func st then st\<lparr>count_crypt := count_crypt st + 1\<rparr> else st) in
         if p0 = IDENT then
           (if pg_strcasecmp_eq (yylval_str st) ''dblink_connect''
            then Inl (st\<lparr>cur_stmt_type := 8\<rparr>)
            else if pg_strcasecmp_eq (yylval_str st) ''exec_on_extension'' \<or>
                    pg_strcasecmp_eq (yylval_str st) ''exec_hadoop_sql''
            then Inl (st\<lparr>is_child_stmt := False, prev_token1 := CharTok CHR ''('',
                         cur_stmt_type := 12\<rparr>)
            else if pg_strcasecmp_eq (yylval_str st) ''gs_encrypt_aes128'' \<or>
                    pg_strcasecmp_eq (yylval_str st) ''gs_decrypt_aes128''
            then
              (let st = st\<lparr>is_crypt_func := True, cur_stmt_type := 8\<rparr> in
               Inl (if count_crypt st = 0
                    then st\<lparr>count_crypt := count_crypt st + 1, position_crypt := tloc t + 1\<rparr>
                    else st))
            else Inl st)
         else Inl st)
      else if k = CharTok CHR '')'' then
        (let r1 =
           (if is_crypt_func st then
              (let st = st\<lparr>count_crypt := count_crypt st - 1\<rparr> in
               if count_crypt st = 0 then
                 (let st = ensure_mask query_string st;
                      m = the (mask_string st);
                      r = (if tloc t > position_crypt st
                           then memset_stars m (position_crypt st)
                                  (int (length m) - position_crypt st)
                                  (tloc t - position_crypt st)
                           else MemOk m)
                  in case r of
                       MemOk m \<Rightarrow> Inl (st\<lparr>mask_string := Some m, is_crypt_func := False,
                                          position_crypt := 0\<rparr>)
                     | MemErr m \<Rightarrow> Inr (Some (st\<lparr>mask_string := Some m\<rparr>))
                     | MemFault \<Rightarrow> Inr None)
               else Inl st)
            else Inl st)
         in case r1 of
              Inr e \<Rightarrow> Inr e
            | Inl st \<Rightarrow>
               (let r2 =
                  (if cur_stmt_type st = 8 then
                     (case star_spans [0 ..< idx st] (ensure_mask query_string st) of
                        Inl st \<Rightarrow> Inl (st\<lparr>idx := 0, cur_stmt_type := 0\<rparr>)
                      | Inr e \<Rightarrow> Inr e)
                   else Inl st)
                in case r2 of
                     Inr e \<Rightarrow> Inr e
                   | Inl st \<Rightarrow>
                       Inl (if cur_stmt_type st = 12
                            then st\<lparr>cur_stmt_type := 0, prev_token1 := NoTok\<rparr> else st)))
      else if k = CharTok CHR '','' then
        (if cur_stmt_type st = 12 \<and> prev_token1 st = CharTok CHR ''(''
         then Inl (st\<lparr>is_child_stmt := True\<rparr>) else Inl st)
      else if k = CharTok CHR '';'' then
        Inl (st\<lparr>cur_stmt_type := 0, is_password := False, idx := 0\<rparr>)
      else if k = FOREIGN then
        (if p0 = CREATE \<or> p0 = ALTER then Inl (st\<lparr>prev_token1 := FOREIGN\<rparr>) else Inl st)
      else if k = TABLE then
        (if prev_token1 st = FOREIGN then Inl (st\<lparr>prev_token2 := TABLE\<rparr>) else Inl st)
      else if k = SERVER then
        (if p0 = CREATE \<or> p0 = ALTER then Inl (st\<lparr>prev_token1 := SERVER\<rparr>) else Inl st)
      else if k = OPTIONS then
        (if prev_token1 st = SERVER then Inl (st\<lparr>prev_token2 := OPTIONS\<rparr>)
         else if prev_token1 st = FOREIGN \<and> prev_token2 st = TABLE
         then Inl (st\<lparr>prev_token3 := OPTIONS\<rparr>)
         else if prev_token1 st = DATA_P \<and> prev_token2 st = SOURCE_P
         then Inl (st\<lparr>prev_token3 := OPTIONS\<rparr>)
         else Inl st)
      else if k = DATA_P then
        (if p0 = CREATE \<or> p0 = ALTER then Inl (st\<lparr>prev_token1 := DATA_P\<rparr>) else Inl st)
      else if k = SOURCE_P then
        (if prev_token1 st = DATA_P then Inl (st\<lparr>prev_token2 := SOURCE_P\<rparr>) else Inl st)
      else if k = IDENT then
        (if (prev_token1 st = SERVER \<and> prev_token2 st = OPTIONS) \<or>
            (prev_token1 st = FOREIGN \<and> prev_token2 st = TABLE \<and> prev_token3 st = OPTIONS)
         then Inl (st\<lparr>cur_stmt_type :=
                         (if pg_strcasecmp_eq (yylval_str st) ''secret_access_key''
                          then 10 else 0),
                      idx := 0\<rparr>)
         else if prev_token1 st = DATA_P \<and> prev_token2 st = SOURCE_P \<and>
                 prev_token3 st = OPTIONS
         then Inl (st\<lparr>cur_stmt_type :=
                         (if pg_strcasecmp_eq (yylval_str st) ''username'' then 11 else 0),
                      idx := 0\<rparr>)
         else Inl st)
      else if k = SCONST then
        (if (cur_stmt_type st = 10 \<or> cur_stmt_type st = 11) \<and> p0 = IDENT then
           (let st = ensure_mask query_string st in
            case memset_stars (the (mask_string st)) (position st ! 0) (length_arr st ! 0)
                   (length_arr st ! 0) of
              MemOk m \<Rightarrow> Inl (st\<lparr>mask_string := Some m, idx := 0, cur_stmt_type := 0\<rparr>)
            | MemErr m \<Rightarrow> Inr (Some (st\<lparr>mask_string := Some m\<rparr>))
            | MemFault \<Rightarrow> Inr None)
         else Inl st)
      else Inl st)"

subsection \<open>The loop, the recovery block and the function\<close>

text \<open>
  The block for a child statement (the body of a function, procedure or anonymous block,
  or the text of EXECUTE IMMEDIATE).  \<open>child\<close> is the recursive call.  The result is
  \<open>None\<close> when the token is not a child statement and goes through the rest of the loop
  body.
\<close>

definition child_stmt ::
  "(string \<Rightarrow> knl_thrd \<Rightarrow> string option outcome) \<Rightarrow> string \<Rightarrow> yytoken \<Rightarrow> scan \<Rightarrow> knl_thrd
     \<Rightarrow> step_result option" where
  "child_stmt child query_string t st s =
     (if curr_token st = SCONST \<and> yylval_str st \<noteq> [] then
        (let st = (if prev_token0 st = IMMEDIATE
                   then st\<lparr>yylval_str := erase_single_quotes (yylval_str st)\<rparr> else st)
         in case child (yylval_str st) s of
              Returns childStmt s' \<Rightarrow>
                (case childStmt of
                   None \<Rightarrow> Some (Next st s')
                 | Some c \<Rightarrow>
                     (let st = ensure_mask query_string st;
                          m = the (mask_string st);
                          n = tliterallen t
                      in if n \<noteq> int (length c) then Some (Throw st s')
                         else if n \<le> 0 then Some (Throw st s')
                         else if tloc t + 1 < 0 \<or> tloc t + 1 + n > int (length m)
                         then Some Fault
                         else Some (Next (st\<lparr>mask_string :=
                                 Some (take (nat (tloc t + 1)) m @ c @
                                       drop (nat (tloc t + 1 + n)) m)\<rparr>) s')))
            | other \<Rightarrow> Some (Ended other))
      else None)"

text \<open>The body of the \<^verbatim>\<open>while (1)\<close> loop for one token delivered by the tokenizer.\<close>

definition scan_token ::
  "(string \<Rightarrow> knl_thrd \<Rightarrow> string option outcome) \<Rightarrow> knl_env \<Rightarrow> string \<Rightarrow> yytoken \<Rightarrow> scan
     \<Rightarrow> knl_thrd \<Rightarrow> step_result" where
  "scan_token child env query_string t st s =
     (let st = st\<lparr>prev_token0 := curr_token st, curr_token := tkind t,
                  yylval_str := (case tval t of Some v \<Rightarrow> v | None \<Rightarrow> yylval_str st)\<rparr>;
          was_child = is_child_stmt st;
          st = st\<lparr>is_child_stmt := False\<rparr>
      in case (if was_child then child_stmt child query_string t st s else None) of
           Some r \<Rightarrow> r
         | None \<Rightarrow>
             (case collect_token env query_string t st of
                Inr (Some st') \<Rightarrow> Throw st' s
              | Inr None \<Rightarrow> Fault
              | Inl st' \<Rightarrow>
                  (case switch_token query_string t st' of
                     Inl st'' \<Rightarrow> Next st'' s
                   | Inr (Some st'') \<Rightarrow> Throw st'' s
                   | Inr None \<Rightarrow> Fault)))"

fun scan_tokens ::
  "(string \<Rightarrow> knl_thrd \<Rightarrow> string option outcome) \<Rightarrow> knl_env \<Rightarrow> string \<Rightarrow> yytoken list \<Rightarrow> scan
     \<Rightarrow> knl_thrd \<Rightarrow> step_result" where
  "scan_tokens child env query_string [] st s = Next st s"
| "scan_tokens child env query_string (t # ts) st s =
     (case scan_token child env query_string t st s of
        Next st' s' \<Rightarrow> scan_tokens child env query_string ts st' s'
      | r \<Rightarrow> r)"

text \<open>
  \<^verbatim>\<open>ereport(ERROR, (errcode(code), errmsg(msg)))\<close>: the cycle is opened, the two fields
  are set in the top frame, and the cycle is closed.
\<close>

definition ereport_ERROR :: "knl_env \<Rightarrow> int \<Rightarrow> string \<Rightarrow> knl_thrd \<Rightarrow> unit outcome" where
  "ereport_ERROR env code msg s =
     (case errstart env ERROR (Some ''elog.cpp'') 0 (Some ''mask_Password_internal'') None s of
        Returns b s1 \<Rightarrow>
          (if b then errfinish 3 env
                      (top_update (\<lambda>e. e\<lparr>sqlerrcode := code, message := Some msg\<rparr>) s1)
           else Returns () s1)
      | Aborted s1 \<Rightarrow> Aborted s1
      | ProcExit c s1 \<Rightarrow> ProcExit c s1
      | LongJump j s1 \<Rightarrow> LongJump j s1
      | Ereport l m s1 \<Rightarrow> Ereport l m s1
      | OutOfFuel \<Rightarrow> OutOfFuel
      | MemoryFault \<Rightarrow> MemoryFault)"

text \<open>A report of the tokenizer that is under construction when the ERROR is raised.\<close>

definition push_frame :: "ErrorData \<Rightarrow> knl_thrd \<Rightarrow> knl_thrd" where
  "push_frame f s =
     s\<lparr>errordata_stack_depth := errordata_stack_depth s + 1,
       errordata := (errordata s)(nat (errordata_stack_depth s + 1) := f),
       recursion_depth := recursion_depth s + 1\<rparr>"

text \<open>
  The loop of the recovery block:
  \<^verbatim>\<open>for (i = save_stack_depth + 1; i <= errordata_stack_depth; ++i) { ...; errordata_stack_depth--; }\<close>
\<close>

function pop_frames :: "int \<Rightarrow> knl_thrd \<Rightarrow> knl_thrd" where
  "pop_frames i s =
     (if i \<le> errordata_stack_depth s then
        pop_frames (i + 1)
          ((top_update (\<lambda>e. e\<lparr>message := None, detail := None, detail_log := None,
                              hint := None, context_str := None, internalquery := None\<rparr>) s)
             \<lparr>errordata_stack_depth := errordata_stack_depth s - 1\<rparr>)
      else s)"
  by pat_completeness auto
termination
  by (relation "measure (\<lambda>(i, s). nat (errordata_stack_depth s - i + 1))")
     (auto simp add: top_update_def)

declare pop_frames.simps [simp del]

text \<open>The jump buffers of one call, named apart from the one registered at entry.\<close>

definition compile_sigjmp_buf :: "knl_thrd \<Rightarrow> nat" where
  "compile_sigjmp_buf s = (case PG_exception_stack s of None \<Rightarrow> 0 | Some j \<Rightarrow> Suc j)"

definition local_sigjmp_buf :: "knl_thrd \<Rightarrow> nat" where
  "local_sigjmp_buf s = Suc (compile_sigjmp_buf s)"

text \<open>
  The statements after \<^verbatim>\<open>PG_END_TRY()\<close>: the saved engine state is put back.  The depth
  of the error stack is not among the values put back.
\<close>

definition restore_state :: "knl_thrd \<Rightarrow> knl_thrd \<Rightarrow> knl_thrd" where
  "restore_state saved s =
     s\<lparr>PG_exception_stack := PG_exception_stack saved,
       error_context_stack := error_context_stack saved,
       recursion_depth := recursion_depth saved,
       InterruptHoldoffCount := InterruptHoldoffCount saved,
       escape_string_warning := escape_string_warning saved\<rparr>"

text \<open>
  \<^verbatim>\<open>mask_Password_internal\<close>.  The first argument bounds the nesting of child statements.
  \<^verbatim>\<open>PG_TRY\<close> registers a jump buffer of its own for the guarded block, and
  \<^verbatim>\<open>PG_CATCH\<close> and \<^verbatim>\<open>PG_END_TRY\<close> put back the recovery point and the context chain
  found at \<^verbatim>\<open>PG_TRY\<close> (the macros are defined in \<^verbatim>\<open>utils/elog.h\<close>).  An ERROR raised
  in the guarded block jumps to the recovery block of the call; the result is the masked
  copy as it stands then.  A report at ERROR or above does not return; the branch for a
  return is there for totality and is never taken.
\<close>

primrec mask_Password_internal ::
  "nat \<Rightarrow> knl_env \<Rightarrow> lexer \<Rightarrow> string \<Rightarrow> knl_thrd \<Rightarrow> string option outcome" where
  "mask_Password_internal 0 env yylex query_string s = OutOfFuel"
| "mask_Password_internal (Suc n) env yylex query_string s =
     (let compile = compile_sigjmp_buf s;
          local = local_sigjmp_buf s;
          save_stack_depth = errordata_stack_depth s;
          s1 = s\<lparr>escape_string_warning := False, recursion_depth := 0,
                 error_context_stack := [], PG_exception_stack := Some local\<rparr>;
          r = (case scan_tokens (mask_Password_internal n env yylex) env query_string
                      (fst (yylex query_string)) scan_init s1 of
                 Next st s2 \<Rightarrow>
                   (case snd (yylex query_string) of
                      EndOfInput \<Rightarrow> Next st s2
                    | ParseError frames \<Rightarrow> Throw st (fold push_frame frames s2))
               | r \<Rightarrow> r)
      in case r of
           Next st s2 \<Rightarrow>
             Returns (mask_string st)
               (restore_state s (s2\<lparr>PG_exception_stack := Some compile,
                                     error_context_stack := []\<rparr>))
         | Throw st s2 \<Rightarrow>
             (case ereport_ERROR env ERRCODE_SYNTAX_ERROR ''parse error'' s2 of
                LongJump j s3 \<Rightarrow>
                  (if j = local then
                     Returns (mask_string st)
                       (restore_state s
                          (pop_frames (save_stack_depth + 1)
                             (s3\<lparr>PG_exception_stack := Some compile,
                                  error_context_stack := []\<rparr>)))
                   else LongJump j s3)
              | Returns u s3 \<Rightarrow> Aborted s3
              | Aborted s3 \<Rightarrow> Aborted s3
              | ProcExit c s3 \<Rightarrow> ProcExit c s3
              | Ereport l m s3 \<Rightarrow> Ereport l m s3
              | OutOfFuel \<Rightarrow> OutOfFuel
              | MemoryFault \<Rightarrow> MemoryFault)
         | Fault \<Rightarrow> MemoryFault
         | Ended other \<Rightarrow> other)"

subsection \<open>Token sequences of sample statements\<close>

text \<open>
  Modelled from the spec: the tokenizer yields (token kind, text, start offset) triples.
  The sequences below are the ones the SQL tokenizer of the repository delivers for the
  statements named; a keyword comes with its name, an identifier in lower case, and a
  string constant with its value, that is without the enclosing quotes and with a
  doubled quote inside the constant reduced to one.
\<close>

definition tk :: "tok \<Rightarrow> string \<Rightarrow> int \<Rightarrow> yytoken" where
  "tk k v l = \<lparr>tkind = k, tval = Some v, tloc = l, tliterallen = int (length v)\<rparr>"

definition ctok :: "char \<Rightarrow> int \<Rightarrow> yytoken" where
  "ctok c l = \<lparr>tkind = CharTok c, tval = None, tloc = l, tliterallen = 0\<rparr>"

definition create_user_stmt :: string where
  "create_user_stmt = ''CREATE USER alice PASSWORD 'Secret123';''"

definition create_user_masked :: string where
  "create_user_masked = ''CREATE USER alice PASSWORD '********';''"

definition alter_user_stmt :: string where
  "alter_user_stmt = ''ALTER USER u IDENTIFIED BY 'newpassword1' REPLACE 'oldpassword1';''"

definition alter_user_masked :: string where
  "alter_user_masked = ''ALTER USER u IDENTIFIED BY '********' REPLACE '********';''"

definition dblink_stmt :: string where
  "dblink_stmt = ''select dblink_connect('abc');''"

definition dblink_masked :: string where
  "dblink_masked = ''select dblink_connect('***');''"

text \<open>Two passwords shorter than the mask, the second one after a run of ten blanks.\<close>

definition short_password_stmt :: string where
  "short_password_stmt = ''ALTER USER u IDENTIFIED BY 'ab' REPLACE          'cd';''"

definition short_password_pass1 :: string where
  "short_password_pass1 =
     ''ALTER USER u IDENTIFIED BY '********' REPLACE     ********   'cd';''"

definition short_password_pass2 :: string where
  "short_password_pass2 =
     ''ALTER USER u IDENTIFIED BY '********' REPLACE     ********   '********';''"

text \<open>A statement with a string constant that is not closed.\<close>

definition unterminated_stmt :: string where
  "unterminated_stmt = ''select 'abc''"

definition sample_tokens :: "string \<Rightarrow> yytoken list" where
  "sample_tokens q =
     (if q = create_user_stmt then
        [tk CREATE ''create'' 0, tk USER ''user'' 7, tk IDENT ''alice'' 12,
         tk PASSWORD ''password'' 18, tk SCONST ''Secret123'' 27, ctok CHR '';'' 38]
      else if q = create_user_masked then
        [tk CREATE ''create'' 0, tk USER ''user'' 7, tk IDENT ''alice'' 12,
         tk PASSWORD ''password'' 18, tk SCONST ''********'' 27, ctok CHR '';'' 37]
      else if q = alter_user_stmt then
        [tk ALTER ''alter'' 0, tk USER ''user'' 6, tk IDENT ''u'' 11,
         tk IDENTIFIED ''identified'' 13, tk BY ''by'' 24, tk SCONST ''newpassword1'' 27,
         tk REPLACE ''replace'' 42, tk SCONST ''oldpassword1'' 50, ctok CHR '';'' 64]
      else if q = dblink_stmt then
        [tk (OtherTok 0) ''select'' 0, tk IDENT ''dblink_connect'' 7, ctok CHR ''('' 21,
         tk SCONST ''abc'' 22, ctok CHR '')'' 27, ctok CHR '';'' 28]
      else if q = short_password_stmt then
        [tk ALTER ''alter'' 0, tk USER ''user'' 6, tk IDENT ''u'' 11,
         tk IDENTIFIED ''identified'' 13, tk BY ''by'' 24, tk SCONST ''ab'' 27,
         tk REPLACE ''replace'' 32, tk SCONST ''cd'' 49, ctok CHR '';'' 53]
      else if q = short_password_pass1 then
        [tk ALTER ''alter'' 0, tk USER ''user'' 6, tk IDENT ''u'' 11,
         tk IDENTIFIED ''identified'' 13, tk BY ''by'' 24, tk SCONST ''********'' 27,
         tk REPLACE ''replace'' 38, tk (OtherTok 1) ''********'' 50, tk SCONST ''cd'' 61,
         ctok CHR '';'' 65]
      else if q = unterminated_stmt then [tk (OtherTok 0) ''select'' 0]
      else [])"

text \<open>
  A token lies at its offset in the text: a single character as itself, a string
  constant between quotes, any other token as its value up to the case of letters.
\<close>

definition token_at :: "string \<Rightarrow> yytoken \<Rightarrow> bool" where
  "token_at q t =
     (case tkind t of
        CharTok c \<Rightarrow> char_at q (tloc t) = c
      | SCONST \<Rightarrow>
          char_at q (tloc t) = CHR 0x27 \<and>
          take (length (the (tval t))) (drop (nat (tloc t) + 1) q) = the (tval t) \<and>
          char_at q (tloc t + 1 + int (length (the (tval t)))) = CHR 0x27
      | _ \<Rightarrow>
          map pg_tolower (take (length (the (tval t))) (drop (nat (tloc t)) q)) = the (tval t))"

text \<open>
  The tokenizer on the sample statements.  The constant that is not closed ends the
  sequence with an ERROR; in the second variant the ERROR comes while one report of the
  tokenizer is still under construction.
\<close>

definition sample_lexer :: lexer where
  "sample_lexer q =
     (sample_tokens q, if q = unterminated_stmt then ParseError [] else EndOfInput)"

definition sample_lexer_nested :: lexer where
  "sample_lexer_nested q =
     (sample_tokens q,
      if q = unterminated_stmt
      then ParseError [zero_ErrorData\<lparr>elevel := ERROR, sqlerrcode := ERRCODE_SYNTAX_ERROR\<rparr>]
      else EndOfInput)"

text \<open>
  A caller in the middle of its own report: one ERROR frame on the stack, inside
  \<^verbatim>\<open>EmitErrorReport\<close>, with a context callback registered and interrupts held off.
\<close>

definition reporting_caller :: knl_thrd where
  "reporting_caller =
     (pending ERROR)\<lparr>recursion_depth := 1, error_context_stack := [''callback''],
                      InterruptHoldoffCount := 2\<rparr>"


section \<open>Properties of the severity engine\<close>

lemmas elevel_defs =
  DEBUG5_def DEBUG4_def DEBUG3_def DEBUG2_def DEBUG1_def LOG_def COMMERROR_def INFO_def
  NOTICE_def WARNING_def ERROR_def VERBOSEMESSAGE_def FATAL_def PANIC_def

lemmas sqlstate_defs =
  ERRCODE_SUCCESSFUL_COMPLETION_def ERRCODE_WARNING_def ERRCODE_WRONG_OBJECT_TYPE_def
  ERRCODE_INSUFFICIENT_PRIVILEGE_def ERRCODE_SYNTAX_ERROR_def MAKE_SQLSTATE_def PGSIXBIT_def

lemmas errstart_defs =
  errstart_def errstart_decide_def errstart_promote_def stack_max_def Let_def top_frame_def
  is_log_level_output_def zero_ErrorData_def ERRORDATA_STACK_SIZE_def default_sqlerrcode_def
  in_error_recursion_trouble_def

lemmas state_defs =
  env0_def thrd0_def pending_def env_module_off_def critical_no_handler_def caught_no_handler_def

lemma fold_max_lower: "e \<le> fold (\<lambda>i e. max e (f i)) xs (e::int)"
  by (induction xs arbitrary: e) (auto intro: order_trans[OF max.cobounded1])

lemma fold_max_member: "i \<in> set xs \<Longrightarrow> f i \<le> fold (\<lambda>i e. max e (f i)) xs (e::int)"
proof (induction xs arbitrary: e)
  case Nil
  then show ?case by simp
next
  case (Cons x xs)
  show ?case
  proof (cases "i = x")
    case True
    have "f x \<le> max e (f x)" by simp
    also have "\<dots> \<le> fold (\<lambda>i e. max e (f i)) xs (max e (f x))"
      by (rule fold_max_lower)
    finally show ?thesis using True by simp
  next
    case False
    with Cons show ?thesis by simp
  qed
qed

lemma stack_max_lower: "e \<le> stack_max s e"
  unfolding stack_max_def by (rule fold_max_lower)

lemma stack_max_frame:
  "int i \<le> errordata_stack_depth s \<Longrightarrow> elevel (errordata s i) \<le> stack_max s e"
  unfolding stack_max_def by (rule fold_max_member) auto

lemma errstart_promote_ge_ERROR: "ERROR \<le> lev0 \<Longrightarrow> ERROR \<le> errstart_promote env s lev0"
  by (auto simp add: errstart_promote_def Let_def elevel_defs)

lemma errstart_promote_ge:
  "ERROR \<le> lev0 \<Longrightarrow> lev0 \<le> PANIC \<Longrightarrow> lev0 \<le> errstart_promote env s lev0"
  by (auto simp add: errstart_promote_def Let_def elevel_defs)

lemma decide_elevel_high:
  "ERROR \<le> lev0 \<Longrightarrow>
     r_elevel (errstart_decide env s lev0) = stack_max s (errstart_promote env s lev0)"
  using stack_max_lower[of "errstart_promote env s lev0" s]
    errstart_promote_ge_ERROR[of lev0 env s]
  by (auto simp add: errstart_decide_def Let_def elevel_defs)

lemma decide_elevel_low:
  "lev0 < ERROR \<Longrightarrow> lev0 \<noteq> VERBOSEMESSAGE \<Longrightarrow> r_elevel (errstart_decide env s lev0) = lev0"
  by (auto simp add: errstart_decide_def Let_def)

text \<open>What a successful \<^verbatim>\<open>errstart\<close> leaves behind: one more frame, filled from its decisions.\<close>

lemma errstart_True:
  assumes "errstart env lev0 fname line func d s = Returns True s'"
  shows "errordata_stack_depth s' = errordata_stack_depth s + 1"
    and "errordata_stack_depth s' < ERRORDATA_STACK_SIZE"
    and "elevel (top_frame s') = r_elevel (errstart_decide env s lev0)"
    and "output_to_server (top_frame s') = r_to_server (errstart_decide env s lev0)"
    and "output_to_client (top_frame s') = r_to_client (errstart_decide env s lev0)"
    and "sqlerrcode (top_frame s') = default_sqlerrcode (r_elevel (errstart_decide env s lev0))"
    and "recursion_depth s' = recursion_depth s"
  using assms
  by (auto simp add: errstart_def Let_def top_frame_def zero_ErrorData_def split: if_splits)

lemma top_frame_top_update [simp]: "top_frame (top_update f s) = f (top_frame s)"
  by (simp add: top_frame_def top_update_def)

lemma top_update_fields [simp]:
  "errordata_stack_depth (top_update f s) = errordata_stack_depth s"
  "recursion_depth (top_update f s) = recursion_depth s"
  "PG_exception_stack (top_update f s) = PG_exception_stack s"
  "error_context_stack (top_update f s) = error_context_stack s"
  "whereToSendOutput (top_update f s) = whereToSendOutput s"
  "trace (top_update f s) = trace s"
  "InterruptHoldoffCount (top_update f s) = InterruptHoldoffCount s"
  by (simp_all add: top_update_def)

lemma top_frame_other_fields [simp]:
  "top_frame (s\<lparr>recursion_depth := r\<rparr>) = top_frame s"
  "top_frame (s\<lparr>trace := t\<rparr>) = top_frame s"
  "top_frame (s\<lparr>force_backtrace_messages := b\<rparr>) = top_frame s"
  "top_frame (s\<lparr>error_context_stack := c\<rparr>) = top_frame s"
  "top_frame (s\<lparr>ImmediateInterruptOK := b\<rparr>) = top_frame s"
  "top_frame (s\<lparr>recursion_depth := r, force_backtrace_messages := b\<rparr>) = top_frame s"
  by (simp_all add: top_frame_def)

lemma capture_backtrace_fields [simp]:
  "elevel (capture_backtrace env e) = elevel e"
  "output_to_server (capture_backtrace env e) = output_to_server e"
  "output_to_client (capture_backtrace env e) = output_to_client e"
  "mod_id (capture_backtrace env e) = mod_id e"
  "sqlerrcode (capture_backtrace env e) = sqlerrcode e"
  "message (capture_backtrace env e) = message e"
  "handle_in_client (capture_backtrace env e) = handle_in_client e"
  by (simp_all add: capture_backtrace_def)

subsection \<open>The stack-maximum rule\<close>

text \<open>
  C4 (as the code has it).  The maximum over the pending frames is taken only for a
  report requested at ERROR or above: then the level recorded in the new frame is at
  least the level of every frame pending on the stack, and at least the requested level
  (for a level up to PANIC).  A report requested below ERROR is recorded at its own level
  whatever is pending (VERBOSEMESSAGE apart, which a coordinator records as INFO).
\<close>

theorem errstart_stack_maximum:
  assumes "errstart env lev0 fname line func d s = Returns True s'"
  shows "(ERROR \<le> lev0 \<longrightarrow>
            (\<forall>i. int i \<le> errordata_stack_depth s \<longrightarrow>
                 elevel (errordata s i) \<le> elevel (top_frame s'))) \<and>
         (ERROR \<le> lev0 \<and> lev0 \<le> PANIC \<longrightarrow> lev0 \<le> elevel (top_frame s')) \<and>
         (lev0 < ERROR \<and> lev0 \<noteq> VERBOSEMESSAGE \<longrightarrow> elevel (top_frame s') = lev0)"
proof -
  have e: "elevel (top_frame s') = r_elevel (errstart_decide env s lev0)"
    using assms by (rule errstart_True(3))
  have a: "ERROR \<le> lev0 \<longrightarrow>
      (\<forall>i. int i \<le> errordata_stack_depth s \<longrightarrow> elevel (errordata s i) \<le> elevel (top_frame s'))"
    by (simp add: e decide_elevel_high stack_max_frame)
  have b: "ERROR \<le> lev0 \<and> lev0 \<le> PANIC \<longrightarrow> lev0 \<le> elevel (top_frame s')"
    using stack_max_lower[of "errstart_promote env s lev0" s] errstart_promote_ge[of lev0 env s]
    by (auto simp add: e decide_elevel_high)
  have c: "lev0 < ERROR \<and> lev0 \<noteq> VERBOSEMESSAGE \<longrightarrow> elevel (top_frame s') = lev0"
    by (simp add: e decide_elevel_low)
  from a b c show ?thesis by blast
qed

text \<open>
  C4, witness: an ERROR requested while a PANIC report is pending is recorded as PANIC,
  and a NOTICE requested in the same state is recorded as NOTICE.
\<close>

theorem errstart_stack_maximum_witness:
  "\<exists>s' s''. errstart env0 ERROR None 0 None None (pending PANIC) = Returns True s' \<and>
     ERROR \<le> ERROR \<and> ERROR \<le> PANIC \<and> int 0 \<le> errordata_stack_depth (pending PANIC) \<and>
     elevel (errordata (pending PANIC) 0) \<le> elevel (top_frame s') \<and>
     ERROR \<le> elevel (top_frame s') \<and>
     errstart env0 NOTICE None 0 None None (pending PANIC) = Returns True s'' \<and>
     NOTICE < ERROR \<and> NOTICE \<noteq> VERBOSEMESSAGE \<and> elevel (top_frame s'') = NOTICE"
proof -
  define s' where
    "s' = (case errstart env0 ERROR None 0 None None (pending PANIC) of
             Returns b t \<Rightarrow> t | _ \<Rightarrow> thrd0)"
  define s'' where
    "s'' = (case errstart env0 NOTICE None 0 None None (pending PANIC) of
             Returns b t \<Rightarrow> t | _ \<Rightarrow> thrd0)"
  have h1: "errstart env0 ERROR None 0 None None (pending PANIC) = Returns True s'"
    unfolding s'_def by (simp add: errstart_defs state_defs elevel_defs)
  have h2: "errstart env0 NOTICE None 0 None None (pending PANIC) = Returns True s''"
    unfolding s''_def by (simp add: errstart_defs state_defs elevel_defs)
  have d: "int 0 \<le> errordata_stack_depth (pending PANIC)"
    by (simp add: state_defs)
  have l: "ERROR \<le> ERROR" "ERROR \<le> PANIC" "NOTICE < ERROR" "NOTICE \<noteq> VERBOSEMESSAGE"
    by (simp_all add: elevel_defs)
  show ?thesis
    using errstart_stack_maximum[OF h1] errstart_stack_maximum[OF h2] h1 h2 d l by blast
qed

text \<open>
  C4, counterexample: with an ERROR report pending, a WARNING opens at WARNING, below the
  pending ERROR, and closing it sends it to both sinks at WARNING while the ERROR frame
  is still on the stack.
\<close>

theorem errstart_below_pending_counterexample:
  "(case errstart env0 WARNING None 0 None None (pending ERROR) of
      Returns b s \<Rightarrow>
        b \<and> errordata_stack_depth s = 1 \<and> elevel (errordata s 0) = ERROR \<and>
        elevel (top_frame s) = WARNING \<and> elevel (top_frame s) < elevel (errordata s 0) \<and>
        (case errfinish 3 env0 s of
           Returns u s' \<Rightarrow>
             map (\<lambda>e. case e of ServerLog r \<Rightarrow> elevel r | Frontend r \<Rightarrow> elevel r | _ \<Rightarrow> 0)
               (trace s') = [WARNING, WARNING] \<and>
             errordata_stack_depth s' = 0 \<and> elevel (errordata s' 0) = ERROR
         | _ \<Rightarrow> False)
    | _ \<Rightarrow> False)"
  by (simp add: errstart_defs state_defs elevel_defs sqlstate_defs numeral_3_eq_3
      errfinish_begin_def errfinish_emit_def top_update_def EmitErrorReport_def
      send_message_to_server_log_def send_message_to_frontend_def capture_backtrace_def)

subsection \<open>The default status code\<close>

lemma sqlstate_values:
  "ERRCODE_SUCCESSFUL_COMPLETION = 0" "ERRCODE_WARNING = 64"
  "ERRCODE_WRONG_OBJECT_TYPE = 151027844"
  by (simp_all add: sqlstate_defs)

text \<open>
  C6 (as the code has it).  The frame a successful \<^verbatim>\<open>errstart\<close> pushes always carries a
  status code, chosen by the level recorded in the frame: the code 42809 for ERROR and
  above, the warning code 01000 for WARNING itself, and the success code 00000 for every
  level below WARNING.  The three codes are five characters long and distinct.
\<close>

theorem errstart_default_sqlerrcode:
  assumes "errstart env lev0 fname line func d s = Returns True s'"
  shows "sqlerrcode (top_frame s') =
           (if elevel (top_frame s') \<ge> ERROR then ERRCODE_WRONG_OBJECT_TYPE
            else if elevel (top_frame s') = WARNING then ERRCODE_WARNING
            else ERRCODE_SUCCESSFUL_COMPLETION) \<and>
         unpack_sqlstate 5 ERRCODE_WRONG_OBJECT_TYPE = ''42809'' \<and>
         unpack_sqlstate 5 ERRCODE_WARNING = ''01000'' \<and>
         unpack_sqlstate 5 ERRCODE_SUCCESSFUL_COMPLETION = ''00000''"
proof -
  have "sqlerrcode (top_frame s') = default_sqlerrcode (elevel (top_frame s'))"
    using errstart_True(3,6)[OF assms] by simp
  moreover have "unpack_sqlstate 5 ERRCODE_WRONG_OBJECT_TYPE = ''42809''"
    "unpack_sqlstate 5 ERRCODE_WARNING = ''01000''"
    "unpack_sqlstate 5 ERRCODE_SUCCESSFUL_COMPLETION = ''00000''"
    by (simp_all add: sqlstate_values eval_nat_numeral PGUNSIXBIT_def char_of_def)
  ultimately show ?thesis by (simp add: default_sqlerrcode_def)
qed

text \<open>C6, witness: a NOTICE gets the success code.\<close>

theorem errstart_default_sqlerrcode_witness:
  "\<exists>s'. errstart env0 NOTICE None 0 None None thrd0 = Returns True s' \<and>
        elevel (top_frame s') = NOTICE \<and>
        sqlerrcode (top_frame s') = ERRCODE_SUCCESSFUL_COMPLETION"
proof -
  define s' where
    "s' = (case errstart env0 NOTICE None 0 None None thrd0 of Returns b t \<Rightarrow> t | _ \<Rightarrow> thrd0)"
  have h: "errstart env0 NOTICE None 0 None None thrd0 = Returns True s'"
    unfolding s'_def by (simp add: errstart_defs state_defs elevel_defs)
  have e: "elevel (top_frame s') = NOTICE"
    unfolding s'_def by (simp add: errstart_defs state_defs elevel_defs)
  show ?thesis
    using errstart_default_sqlerrcode[OF h] h e by (auto simp add: elevel_defs)
qed

text \<open>
  C6, counterexample: WARNING is among the levels up to WARNING, and its default code is
  the warning code, not the success code.
\<close>

theorem errstart_warning_code_counterexample:
  "WARNING \<le> WARNING \<and>
   (case errstart env0 WARNING None 0 None None thrd0 of
      Returns b s \<Rightarrow>
        b \<and> elevel (top_frame s) = WARNING \<and> sqlerrcode (top_frame s) = ERRCODE_WARNING \<and>
        sqlerrcode (top_frame s) \<noteq> ERRCODE_SUCCESSFUL_COMPLETION
    | _ \<Rightarrow> False)"
  by (simp add: errstart_defs state_defs elevel_defs sqlstate_defs)

subsection \<open>The fast reject\<close>




subsection \<open>The order of LOG for the server log\<close>






subsection \<open>COMMERROR\<close>



section \<open>Properties of emission and of the exit paths\<close>


subsection \<open>The module gate\<close>

text \<open>
  C5 (as the code has it).  \<^verbatim>\<open>EmitErrorReport\<close> sends the top record to the server log
  exactly when its server flag is set and the module gate \<^verbatim>\<open>is_errmodule_enable\<close> lets
  the record's level and module pass.  It sends the record to the client exactly when
  its client flag is set, the statement-retry rule does not skip it, and neither early
  return of \<^verbatim>\<open>send_message_to_frontend\<close> applies: the module gate takes no part in the
  client decision.
\<close>

theorem EmitErrorReport_sinks:
  assumes "0 \<le> errordata_stack_depth s"
  shows "EmitErrorReport env s =
     Returns () (s\<lparr>trace := trace s @
        (if output_to_server (top_frame s) \<and>
            is_errmodule_enable env (elevel (top_frame s)) (mod_id (top_frame s))
         then [ServerLog (top_frame s)] else []) @
        (if output_to_client (top_frame s) \<and>
            \<not> (elevel (top_frame s) < FATAL \<and>
               IsStmtRetryAvaliable env (elevel (top_frame s)) (sqlerrcode (top_frame s))) \<and>
            \<not> (\<not> USE_ASSERT_CHECKING env \<and> IS_PGXC_COORDINATOR env \<and> IsConnFromApp env \<and>
               elevel (top_frame s) \<le> LOG) \<and>
            \<not> ((IsConnFromCoord env \<or> StreamThreadAmI env) \<and> elevel (top_frame s) < ERROR \<and>
               \<not> handle_in_client (top_frame s))
         then [Frontend (top_frame s)] else [])\<rparr>)"
  using assms
  by (simp add: EmitErrorReport_def Let_def send_message_to_server_log_def
      send_message_to_frontend_def)

text \<open>
  C5, witness: a WARNING of the normal backend goes to the server log and to the client.
\<close>

theorem EmitErrorReport_sinks_witness:
  "\<exists>s. errstart env0 WARNING None 0 None None thrd0 = Returns True s \<and>
       0 \<le> errordata_stack_depth s \<and>
       EmitErrorReport env0 s =
         Returns () (s\<lparr>trace := [ServerLog (top_frame s), Frontend (top_frame s)]\<rparr>)"
proof -
  define s where
    "s = (case errstart env0 WARNING None 0 None None thrd0 of Returns b t \<Rightarrow> t | _ \<Rightarrow> thrd0)"
  have h: "errstart env0 WARNING None 0 None None thrd0 = Returns True s"
    unfolding s_def by (simp add: errstart_defs state_defs elevel_defs)
  have d: "0 \<le> errordata_stack_depth s"
    using errstart_True(1)[OF h] by (simp add: thrd0_def)
  have f: "output_to_server (top_frame s)" "output_to_client (top_frame s)"
    "elevel (top_frame s) = WARNING" "trace s = []"
    unfolding s_def by (simp_all add: errstart_defs state_defs elevel_defs)
  show ?thesis
    using EmitErrorReport_sinks[OF d, of env0] h d f
    by (auto simp add: env0_def elevel_defs)
qed

text \<open>
  C5, counterexample: with the module gate closed for every module, a WARNING routed to
  both destinations is kept out of the server log and still sent to the client.
\<close>

theorem EmitErrorReport_client_ungated_counterexample:
  "(case errstart env_module_off WARNING None 0 None None thrd0 of
      Returns b s \<Rightarrow>
        output_to_server (top_frame s) \<and> output_to_client (top_frame s) \<and>
        \<not> is_errmodule_enable env_module_off (elevel (top_frame s)) (mod_id (top_frame s)) \<and>
        (case EmitErrorReport env_module_off s of
           Returns u s' \<Rightarrow> trace s' = [Frontend (top_frame s)]
         | _ \<Rightarrow> False)
    | _ \<Rightarrow> False)"
  by (simp add: errstart_defs state_defs elevel_defs sqlstate_defs EmitErrorReport_def
      send_message_to_server_log_def send_message_to_frontend_def)

subsection \<open>ERROR without a recovery point\<close>

lemma fold_max_upper:
  "(e::int) \<le> b \<Longrightarrow> (\<And>i. i \<in> set xs \<Longrightarrow> f i \<le> b) \<Longrightarrow>
     fold (\<lambda>i e. max e (f i)) xs e \<le> b"
  by (induction xs arbitrary: e) auto

lemma stack_max_upper:
  assumes "e \<le> b"
    and "\<And>i. int i \<le> errordata_stack_depth s \<Longrightarrow> elevel (errordata s i) \<le> b"
  shows "stack_max s e \<le> b"
  unfolding stack_max_def using assms by (intro fold_max_upper) auto





lemma promote_frame:
  "top_frame (pg_re_throw_promote env s) =
     (top_frame s)\<lparr> elevel := FATAL,
        output_to_server := (if IsPostmasterEnvironment env
                  then is_log_level_output FATAL (log_min_messages env)
                  else FATAL \<ge> log_min_messages env),
        output_to_client :=
          (whereToSendOutput s = DestRemote \<or> output_to_client (top_frame s)) \<rparr>"
  by (simp add: pg_re_throw_promote_def Let_def)

lemma promote_fields [simp]:
  "errordata_stack_depth (pg_re_throw_promote env s) = errordata_stack_depth s"
  "error_context_stack (pg_re_throw_promote env s) = []"
  "PG_exception_stack (pg_re_throw_promote env s) = PG_exception_stack s"
  "whereToSendOutput (pg_re_throw_promote env s) = whereToSendOutput s"
  "trace (pg_re_throw_promote env s) = trace s"
  by (simp_all add: pg_re_throw_promote_def Let_def)

lemma errfinish_begin_plain:
  assumes "error_context_stack s = []"
    and "\<not> (StreamTopConsumerAmI env \<and> ProducerEdata env \<noteq> None)"
  shows "errfinish_begin env s =
     (elevel (top_frame s),
      top_update (capture_backtrace env)
        (if sqlerrcode (top_frame s) = ERRCODE_INSUFFICIENT_PRIVILEGE
         then s\<lparr>trace := trace s @ [AuditNoPrivileges (message (top_frame s))]\<rparr> else s))"
  using assms
  by (cases "ProducerEdata env") (simp_all add: errfinish_begin_def Let_def)





text \<open>Three units of fuel are enough for any call of \<^verbatim>\<open>errfinish\<close>.\<close>

lemma errfinish_begin_level:
  "elevel (top_frame s) \<le> fst (errfinish_begin env s)"
  by (auto simp add: errfinish_begin_def Let_def split: option.splits)

lemma EmitErrorReport_fuel: "EmitErrorReport env s \<noteq> OutOfFuel"
  by (simp add: EmitErrorReport_def Let_def stack_depth_error_def)

lemma errfinish_emit_fuel: "errfinish_emit env lev s \<noteq> OutOfFuel"
  using EmitErrorReport_fuel
  by (auto simp add: errfinish_emit_def Let_def split: outcome.splits)

lemma errfinish_fuel: "errfinish (Suc (Suc (Suc n))) env s \<noteq> OutOfFuel"
proof -
  have inner: "errfinish (Suc n) env (pg_re_throw_promote env t) \<noteq> OutOfFuel" for t
  proof -
    let ?p = "pg_re_throw_promote env t"
    let ?p1 = "?p\<lparr>recursion_depth := recursion_depth ?p + 1,
                   force_backtrace_messages := False\<rparr>"
    have "FATAL \<le> fst (errfinish_begin env ?p1)"
      using errfinish_begin_level[of ?p1 env] by (simp add: promote_frame)
    then have "fst (errfinish_begin env ?p1) \<noteq> ERROR"
      by (simp add: elevel_defs)
    then show ?thesis
      using errfinish_emit_fuel
      by (auto simp add: stack_depth_error_def Let_def split: prod.splits)
  qed
  have pg: "pg_re_throw (Suc (Suc n)) env t \<noteq> OutOfFuel" for t
    using inner[of t] by (auto split: option.splits outcome.splits)
  show ?thesis
    using pg errfinish_emit_fuel
    by (auto simp add: stack_depth_error_def Let_def split: prod.splits
        simp del: pg_re_throw.simps)
qed




section \<open>Properties of the redaction scanner\<close>

subsection \<open>The sample token sequences\<close>

lemma sample_tokens_fit:
  "list_all (\<lambda>q. list_all (token_at q) (sample_tokens q))
     [create_user_stmt, create_user_masked, alter_user_stmt, alter_user_masked, dblink_stmt,
      dblink_masked, short_password_stmt, short_password_pass1, unterminated_stmt]"
  by code_simp

subsection \<open>The recovery block\<close>

text \<open>
  The loop of the recovery block advances its counter and lowers the depth in the same
  pass, so of \<open>k\<close> frames above the saved depth it pops only the upper half, rounded up.
\<close>

lemma pop_frames_depth:
  "errordata_stack_depth (pop_frames i s) =
     (if i \<le> errordata_stack_depth s
      then errordata_stack_depth s - (errordata_stack_depth s - i + 2) div 2
      else errordata_stack_depth s)"
proof (induction i s rule: pop_frames.induct)
  case (1 i s)
  show ?case
  proof (cases "i \<le> errordata_stack_depth s")
    case True
    let ?s' = "(top_update (\<lambda>e. e\<lparr>message := None, detail := None, detail_log := None,
                              hint := None, context_str := None, internalquery := None\<rparr>) s)
             \<lparr>errordata_stack_depth := errordata_stack_depth s - 1\<rparr>"
    have step: "pop_frames i s = pop_frames (i + 1) ?s'"
      using True by (subst pop_frames.simps) simp
    have d: "errordata_stack_depth ?s' = errordata_stack_depth s - 1"
      by simp
    have "errordata_stack_depth (pop_frames (i + 1) ?s') =
        (if i + 1 \<le> errordata_stack_depth ?s'
         then errordata_stack_depth ?s' - (errordata_stack_depth ?s' - (i + 1) + 2) div 2
         else errordata_stack_depth ?s')"
      using True by (rule "1.IH")
    then show ?thesis
      unfolding step d using True by (simp; presburger)
  next
    case False
    then show ?thesis by (subst pop_frames.simps) simp
  qed
qed

lemma pop_frames_one:
  "errordata_stack_depth s = d + 1 \<Longrightarrow> errordata_stack_depth (pop_frames (d + 1) s) = d"
  by (simp add: pop_frames_depth)

lemma pop_frames_two:
  "errordata_stack_depth s = d + 2 \<Longrightarrow> errordata_stack_depth (pop_frames (d + 1) s) = d + 1"
  by (simp add: pop_frames_depth)

text \<open>
  The plain case in general.  In a state in which an ERROR stays an ERROR (outside a
  critical section and process exit, no exit-on-any-error, nothing above ERROR pending,
  room on the stack), an ERROR raised in the guarded block with no other report of the
  scan open pushes one frame and jumps to the recovery block.
\<close>

lemma errstart_ERROR_push:
  assumes c: "CritSectionCount s \<le> 0" "\<not> proc_exit_inprogress s"
      "\<not> (ExitOnAnyError env \<and> \<not> AmPostmasterProcess env)" "test_err_type s < 3"
    and h: "PG_exception_stack s = Some j"
    and p: "\<forall>i. int i \<le> errordata_stack_depth s \<longrightarrow> elevel (errordata s i) \<le> ERROR"
    and e: "ErrorContext_present env"
    and d: "errordata_stack_depth s + 1 < ERRORDATA_STACK_SIZE"
    and r: "recursion_depth s = 0"
  shows "\<exists>s'. errstart env ERROR fname line func dm s = Returns True s' \<and>
           elevel (top_frame s') = ERROR \<and>
           errordata_stack_depth s' = errordata_stack_depth s + 1 \<and>
           PG_exception_stack s' = Some j \<and>
           error_context_stack s' = error_context_stack s"
proof -
  have pr: "errstart_promote env s ERROR = ERROR"
    using c h by (auto simp add: errstart_promote_def Let_def elevel_defs)
  have "stack_max s ERROR \<le> ERROR"
    using p by (intro stack_max_upper) auto
  with stack_max_lower[of ERROR s] have sm: "stack_max s ERROR = ERROR" by simp
  have lev: "r_elevel (errstart_decide env s ERROR) = ERROR"
    by (simp add: decide_elevel_high pr sm)
  show ?thesis
    using c(1,4) lev e d r h
    by (simp add: errstart_def Let_def top_frame_def zero_ErrorData_def)
qed

lemma errfinish_ERROR_jump:
  assumes d: "0 \<le> errordata_stack_depth s"
    and l: "elevel (top_frame s) = ERROR"
    and cx: "error_context_stack s = []"
    and np: "\<not> (StreamTopConsumerAmI env \<and> ProducerEdata env \<noteq> None)"
    and h: "PG_exception_stack s = Some j"
  shows "\<exists>s'. errfinish (Suc (Suc n)) env s = LongJump j s' \<and>
           errordata_stack_depth s' = errordata_stack_depth s"
proof -
  let ?s1 = "s\<lparr>recursion_depth := recursion_depth s + 1, force_backtrace_messages := False\<rparr>"
  let ?s2 = "top_update (capture_backtrace env)
        (if sqlerrcode (top_frame ?s1) = ERRCODE_INSUFFICIENT_PRIVILEGE
         then ?s1\<lparr>trace := trace ?s1 @ [AuditNoPrivileges (message (top_frame ?s1))]\<rparr>
         else ?s1)"
  have b: "errfinish_begin env ?s1 = (ERROR, ?s2)"
    using errfinish_begin_plain[of ?s1 env] cx np l by simp
  have b2: "PG_exception_stack ?s2 = Some j" "errordata_stack_depth ?s2 = errordata_stack_depth s"
    using h by simp_all
  show ?thesis
    using d b b2 by (simp add: Let_def)
qed


lemma ereport_ERROR_jump:
  assumes c: "CritSectionCount s \<le> 0" "\<not> proc_exit_inprogress s"
      "\<not> (ExitOnAnyError env \<and> \<not> AmPostmasterProcess env)" "test_err_type s < 3"
    and h: "PG_exception_stack s = Some j"
    and p: "\<forall>i. int i \<le> errordata_stack_depth s \<longrightarrow> elevel (errordata s i) \<le> ERROR"
    and e: "ErrorContext_present env"
    and d: "errordata_stack_depth s + 1 < ERRORDATA_STACK_SIZE" "- 1 \<le> errordata_stack_depth s"
    and r: "recursion_depth s = 0"
    and cx: "error_context_stack s = []"
    and np: "\<not> (StreamTopConsumerAmI env \<and> ProducerEdata env \<noteq> None)"
  shows "\<exists>s'. ereport_ERROR env code msg s = LongJump j s' \<and>
           errordata_stack_depth s' = errordata_stack_depth s + 1"
proof -
  obtain s1 where s1: "errstart env ERROR (Some ''elog.cpp'') 0 (Some ''mask_Password_internal'')
        None s = Returns True s1"
    and l1: "elevel (top_frame s1) = ERROR"
    and d1: "errordata_stack_depth s1 = errordata_stack_depth s + 1"
    and h1: "PG_exception_stack s1 = Some j"
    and c1: "error_context_stack s1 = error_context_stack s"
    using errstart_ERROR_push[OF c h p e d(1) r] by blast
  let ?s2 = "top_update (\<lambda>e. e\<lparr>sqlerrcode := code, message := Some msg\<rparr>) s1"
  have "\<exists>s'. errfinish (Suc (Suc (Suc 0))) env ?s2 = LongJump j s' \<and>
           errordata_stack_depth s' = errordata_stack_depth ?s2"
    using d d1 l1 h1 c1 cx np by (intro errfinish_ERROR_jump) simp_all
  then show ?thesis
    using s1 d1 by (auto simp add: ereport_ERROR_def numeral_3_eq_3)
qed

text \<open>
  Then the scanner returns the masked copy built so far, and the depth of the error
  stack, the recursion depth, the context callbacks, the holdoff counter and the
  recovery point are those found at entry.  The first assumption says that the loop
  raised the ERROR itself or the tokenizer raised it at the end of the tokens, and that
  the tokens before it did not touch the engine state (no child statement among them).
\<close>

lemma mask_Password_internal_absorbs:
  fixes s :: knl_thrd
  defines "s1 \<equiv> s\<lparr>escape_string_warning := False, recursion_depth := 0,
                 error_context_stack := [], PG_exception_stack := Some (local_sigjmp_buf s)\<rparr>"
  assumes loop: "scan_tokens (mask_Password_internal n env yylex) env q (fst (yylex q))
                   scan_init s1 = Throw st s1 \<or>
                 scan_tokens (mask_Password_internal n env yylex) env q (fst (yylex q))
                   scan_init s1 = Next st s1 \<and> snd (yylex q) = ParseError []"
    and c: "CritSectionCount s \<le> 0" "\<not> proc_exit_inprogress s"
      "\<not> (ExitOnAnyError env \<and> \<not> AmPostmasterProcess env)" "test_err_type s < 3"
    and p: "\<forall>i. int i \<le> errordata_stack_depth s \<longrightarrow> elevel (errordata s i) \<le> ERROR"
    and e: "ErrorContext_present env"
    and d: "errordata_stack_depth s + 1 < ERRORDATA_STACK_SIZE" "- 1 \<le> errordata_stack_depth s"
    and np: "\<not> (StreamTopConsumerAmI env \<and> ProducerEdata env \<noteq> None)"
  shows "\<exists>s'. mask_Password_internal (Suc n) env yylex q s = Returns (mask_string st) s' \<and>
           errordata_stack_depth s' = errordata_stack_depth s \<and>
           recursion_depth s' = recursion_depth s \<and>
           error_context_stack s' = error_context_stack s \<and>
           InterruptHoldoffCount s' = InterruptHoldoffCount s \<and>
           PG_exception_stack s' = PG_exception_stack s"
proof -
  have r: "(case scan_tokens (mask_Password_internal n env yylex) env q (fst (yylex q))
                scan_init s1 of
              Next st s2 \<Rightarrow>
                (case snd (yylex q) of
                   EndOfInput \<Rightarrow> Next st s2
                 | ParseError frames \<Rightarrow> Throw st (fold push_frame frames s2))
            | r \<Rightarrow> r) = Throw st s1"
    using loop by auto
  obtain s3 where j: "ereport_ERROR env ERRCODE_SYNTAX_ERROR ''parse error'' s1 =
        LongJump (local_sigjmp_buf s) s3"
    and d3: "errordata_stack_depth s3 = errordata_stack_depth s1 + 1"
    using ereport_ERROR_jump[of s1 env "local_sigjmp_buf s" ERRCODE_SYNTAX_ERROR "''parse error''"]
      c p e d np
    by (auto simp add: s1_def)
  let ?s4 = "s3\<lparr>PG_exception_stack := Some (compile_sigjmp_buf s), error_context_stack := []\<rparr>"
  have d4: "errordata_stack_depth (pop_frames (errordata_stack_depth s + 1) ?s4) =
        errordata_stack_depth s"
    using d3 by (intro pop_frames_one) (simp add: s1_def)
  have m: "mask_Password_internal (Suc n) env yylex q s =
      Returns (mask_string st)
        (restore_state s (pop_frames (errordata_stack_depth s + 1) ?s4))"
    using r j unfolding s1_def by (simp add: Let_def)
  show ?thesis
    unfolding m using d4 by (simp add: restore_state_def)
qed

text \<open>
  C2, the code at the failing input.  The caller is in the middle of its own report.
  The tokenizer raises its ERROR on the constant that is not closed.  When the ERROR
  comes with no other report of the scan open, the scanner returns with the depth of the
  error stack, the recursion depth, the context callbacks, the recovery point and the
  interrupt holdoff counter as they were.  When it comes while one report of the scan is
  still under construction, two frames lie above the saved depth, the recovery block
  discards one, and the scanner returns to its caller with one frame too many on the
  stack; the other values are put back.
\<close>

theorem mask_Password_internal_leaves_frame:
  "(case mask_Password_internal 1 env0 sample_lexer unterminated_stmt reporting_caller of
      Returns m s \<Rightarrow>
        m = None \<and>
        errordata_stack_depth s = errordata_stack_depth reporting_caller \<and>
        recursion_depth s = recursion_depth reporting_caller \<and>
        error_context_stack s = error_context_stack reporting_caller \<and>
        InterruptHoldoffCount s = InterruptHoldoffCount reporting_caller \<and>
        PG_exception_stack s = PG_exception_stack reporting_caller
    | _ \<Rightarrow> False) \<and>
   (case mask_Password_internal 1 env0 sample_lexer_nested unterminated_stmt reporting_caller of
      Returns m s \<Rightarrow>
        m = None \<and>
        errordata_stack_depth s = errordata_stack_depth reporting_caller + 1 \<and>
        recursion_depth s = recursion_depth reporting_caller \<and>
        error_context_stack s = error_context_stack reporting_caller \<and>
        InterruptHoldoffCount s = InterruptHoldoffCount reporting_caller \<and>
        PG_exception_stack s = PG_exception_stack reporting_caller
    | _ \<Rightarrow> False)"
  by code_simp

subsection \<open>Masking of the spans\<close>




subsection \<open>A second pass\<close>

text \<open>
  C9, the code at the failing input.  The first password of the statement is shorter
  than the mask, so masking it lengthens the text; the count of cut characters does not
  record this, and the mask of the second password lands six characters early, in the
  blanks before it.  The first pass returns a text in which the second password is still
  readable; the second pass, on that text, masks it and so returns a different text.
\<close>

theorem second_pass_masks_more:
  "short_password_stmt = ''ALTER USER u IDENTIFIED BY 'ab' REPLACE          'cd';'' \<and>
   (case mask_Password_internal 1 env0 sample_lexer short_password_stmt thrd0 of
      Returns m1 s1 \<Rightarrow>
        m1 = Some ''ALTER USER u IDENTIFIED BY '********' REPLACE     ********   'cd';'' \<and>
        (case mask_Password_internal 1 env0 sample_lexer (the m1) s1 of
           Returns m2 s2 \<Rightarrow>
             m2 = Some ''ALTER USER u IDENTIFIED BY '********' REPLACE     ********   '********';'' \<and>
             m2 \<noteq> None \<and> m2 \<noteq> m1
         | _ \<Rightarrow> False)
    | _ \<Rightarrow> False)"
  by code_simp

end
